theory Spec2Isabelle
  imports Main
begin

section \<open>The task service of \<^verbatim>\<open>src/app/endpoint.py\<close>\<close>

text \<open>
  The program is a FastAPI application over two SQLAlchemy tables. Every endpoint runs
  against its own database session, so the state between two requests is the committed
  content of the two tables. A table is a list of rows in insertion order; \<open>.first()\<close>
  is the first row of the list that satisfies the filter and \<open>.all()\<close> is the list of
  all such rows.

  Python strings are modelled as \<open>string\<close>, one element for each character, compared
  by plain equality (the comparison of SQLite's default collation). A \<open>datetime\<close> is
  an integer number of microseconds.
\<close>

subsection \<open>Database models\<close>

text \<open>
  \<^verbatim>\<open>class TaskModel(Base)\<close>, table \<open>tasks\<close>: \<open>id\<close> is the primary key and \<open>title\<close>
  is declared \<open>unique=True\<close>. The field names carry the prefix \<open>tm_\<close>, because
  \<open>id\<close> is a constant of HOL and the request model below has the same field names.
\<close>

record TaskModel =
  tm_id :: string
  tm_title :: string
  tm_description :: "string option"
  tm_status :: string

text \<open>\<^verbatim>\<open>class PomodoroSession(Base)\<close>, table \<open>pomodoro_sessions\<close>: \<open>id\<close> is the primary key.\<close>

record PomodoroSession =
  ps_id :: string
  ps_task_id :: string
  ps_start_time :: int
  ps_end_time :: int
  ps_completed :: bool

record database =
  tasks :: "TaskModel list"
  pomodoro_sessions :: "PomodoroSession list"

definition empty_database :: database where
  "empty_database = \<lparr>tasks = [], pomodoro_sessions = []\<rparr>"

text \<open>
  What a request takes from its environment: the value of \<^verbatim>\<open>str(uuid.uuid4())\<close>, used as
  the default of a primary key, and the value of \<^verbatim>\<open>datetime.now()\<close>.
\<close>

record env =
  uuid4 :: string
  now :: int

text \<open>
  The exceptions of the program: \<^verbatim>\<open>HTTPException(status_code=...)\<close> raised by the
  endpoints (404 is the specification's NotFound, 400 its Conflict), the validation
  error of the request boundary, the \<open>IntegrityError\<close> of a commit that violates a
  primary key or a unique column, and the validation error of a returned value that does
  not fit the \<open>response_model\<close> of its route (answered with status 500).
\<close>

datatype error =
  HTTPException nat | RequestValidationError | IntegrityError | ResponseValidationError

abbreviation NotFound :: error where
  "NotFound \<equiv> HTTPException 404"

abbreviation Conflict :: error where
  "Conflict \<equiv> HTTPException 400"

subsection \<open>Commits\<close>

text \<open>
  The constraints that the database enforces on the table \<open>tasks\<close> (primary key
  \<open>id\<close>, unique \<open>title\<close>) and on the table \<open>pomodoro_sessions\<close> (primary key \<open>id\<close>).
  A commit whose rows violate them raises \<open>IntegrityError\<close> and changes nothing.
\<close>

definition tasks_constraints :: "TaskModel list \<Rightarrow> bool" where
  "tasks_constraints rows = (distinct (map tm_id rows) \<and> distinct (map tm_title rows))"

definition sessions_constraints :: "PomodoroSession list \<Rightarrow> bool" where
  "sessions_constraints rows = distinct (map ps_id rows)"

definition commit_tasks :: "database \<Rightarrow> TaskModel list \<Rightarrow> error + database" where
  "commit_tasks db rows =
     (if tasks_constraints rows then Inr (db\<lparr>tasks := rows\<rparr>) else Inl IntegrityError)"

definition commit_sessions :: "database \<Rightarrow> PomodoroSession list \<Rightarrow> error + database" where
  "commit_sessions db rows =
     (if sessions_constraints rows then Inr (db\<lparr>pomodoro_sessions := rows\<rparr>)
      else Inl IntegrityError)"

subsection \<open>The request model\<close>

text \<open>
  \<^verbatim>\<open>class Task(BaseModel)\<close> after validation, and the JSON body before it. A field of the
  body is \<open>None\<close> when the body does not have it.
\<close>

record Task =
  title :: string
  description :: "string option"
  status :: string

record task_body =
  body_title :: "string option"
  body_description :: "string option"
  body_status :: "string option"

text \<open>
  \<^verbatim>\<open>regex="^(TODO|IN_PROGRESS|DONE)$"\<close>, applied with \<open>re.match\<close>. Without the flag
  \<open>MULTILINE\<close>, \<open>$\<close> matches at the end of the string and also just before a line feed
  that ends the string.
\<close>

definition re_dollar :: "string \<Rightarrow> bool" where
  "re_dollar rest = (rest = [] \<or> rest = [CHR 0x0A])"

definition status_values :: "string list" where
  "status_values = [''TODO'', ''IN_PROGRESS'', ''DONE'']"

definition status_regex_match :: "string \<Rightarrow> bool" where
  "status_regex_match s =
     list_ex (\<lambda>alt. take (length alt) s = alt \<and> re_dollar (drop (length alt) s)) status_values"

text \<open>
  The validation of a body against \<open>Task\<close>: \<open>title\<close> is required, of 3 to 100
  characters; \<open>description\<close> is optional, of at most 300 characters; \<open>status\<close> has
  the default \<open>"TODO"\<close> and must match the regular expression when it is given.
\<close>

definition Task_validate :: "task_body \<Rightarrow> error + Task" where
  "Task_validate body =
     (case body_title body of
        None \<Rightarrow> Inl RequestValidationError
      | Some t \<Rightarrow>
          if length t < 3 \<or> 100 < length t then Inl RequestValidationError
          else if (case body_description body of None \<Rightarrow> False | Some d \<Rightarrow> 300 < length d)
            then Inl RequestValidationError
          else (case body_status body of
                  None \<Rightarrow> Inr \<lparr>title = t, description = body_description body, status = ''TODO''\<rparr>
                | Some s \<Rightarrow>
                    if status_regex_match s
                    then Inr \<lparr>title = t, description = body_description body, status = s\<rparr>
                    else Inl RequestValidationError))"

subsection \<open>Task endpoints\<close>

definition create_task :: "env \<Rightarrow> database \<Rightarrow> Task \<Rightarrow> error + TaskModel \<times> database" where
  "create_task e db task =
     (if find (\<lambda>t. tm_title t = title task) (tasks db) \<noteq> None then Inl (HTTPException 400)
      else
        let new_task = \<lparr>tm_id = uuid4 e, tm_title = title task,
                         tm_description = description task, tm_status = status task\<rparr>
        in (case commit_tasks db (tasks db @ [new_task]) of
              Inl err \<Rightarrow> Inl err
            | Inr db' \<Rightarrow> Inr (new_task, db')))"

text \<open>\<^verbatim>\<open>if status:\<close> is false for \<open>None\<close> and for the empty string.\<close>

definition get_tasks :: "database \<Rightarrow> string option \<Rightarrow> TaskModel list" where
  "get_tasks db status_filter =
     (case status_filter of
        None \<Rightarrow> tasks db
      | Some s \<Rightarrow> if s \<noteq> [] then filter (\<lambda>t. tm_status t = s) (tasks db) else tasks db)"

definition get_task :: "database \<Rightarrow> string \<Rightarrow> error + TaskModel" where
  "get_task db task_id =
     (case find (\<lambda>t. tm_id t = task_id) (tasks db) of
        None \<Rightarrow> Inl (HTTPException 404)
      | Some task \<Rightarrow> Inr task)"

text \<open>
  The assignments to the attributes of \<open>task\<close> are written by the commit as an update
  of the row with the primary key of \<open>task\<close>.
\<close>

definition update_task :: "database \<Rightarrow> string \<Rightarrow> Task \<Rightarrow> error + TaskModel \<times> database" where
  "update_task db task_id updated_task =
     (case find (\<lambda>t. tm_id t = task_id) (tasks db) of
        None \<Rightarrow> Inl (HTTPException 404)
      | Some task \<Rightarrow>
          if find (\<lambda>t. tm_title t = title updated_task \<and> tm_id t \<noteq> task_id) (tasks db) \<noteq> None
          then Inl (HTTPException 400)
          else
            let task' = task\<lparr>tm_title := title updated_task,
                             tm_description := description updated_task,
                             tm_status := status updated_task\<rparr>
            in (case commit_tasks db
                       (map (\<lambda>t. if tm_id t = tm_id task then task' else t) (tasks db)) of
                  Inl err \<Rightarrow> Inl err
                | Inr db' \<Rightarrow> Inr (task', db')))"

text \<open>\<^verbatim>\<open>db.delete(task)\<close> deletes the row with the primary key of \<open>task\<close>.\<close>

definition delete_task :: "database \<Rightarrow> string \<Rightarrow> error + database" where
  "delete_task db task_id =
     (case find (\<lambda>t. tm_id t = task_id) (tasks db) of
        None \<Rightarrow> Inl (HTTPException 404)
      | Some task \<Rightarrow> Inr (db\<lparr>tasks := filter (\<lambda>t. tm_id t \<noteq> tm_id task) (tasks db)\<rparr>))"

subsection \<open>Pomodoro endpoints\<close>

text \<open>\<^verbatim>\<open>timedelta(minutes=...)\<close> in microseconds.\<close>

definition timedelta_minutes :: "int \<Rightarrow> int" where
  "timedelta_minutes m = m * 60000000"

definition create_pomodoro ::
  "env \<Rightarrow> database \<Rightarrow> string \<Rightarrow> error + PomodoroSession \<times> database" where
  "create_pomodoro e db task_id =
     (case find (\<lambda>t. tm_id t = task_id) (tasks db) of
        None \<Rightarrow> Inl (HTTPException 404)
      | Some task \<Rightarrow>
          if find (\<lambda>s. ps_task_id s = task_id \<and> ps_completed s = False) (pomodoro_sessions db)
             \<noteq> None
          then Inl (HTTPException 400)
          else
            let start_time = now e;
                end_time = start_time + timedelta_minutes 25;
                session = \<lparr>ps_id = uuid4 e, ps_task_id = task_id, ps_start_time = start_time,
                            ps_end_time = end_time, ps_completed = False\<rparr>
            in (case commit_sessions db (pomodoro_sessions db @ [session]) of
                  Inl err \<Rightarrow> Inl err
                | Inr db' \<Rightarrow> Inr (session, db')))"

definition stop_pomodoro :: "database \<Rightarrow> string \<Rightarrow> error + PomodoroSession \<times> database" where
  "stop_pomodoro db task_id =
     (case find (\<lambda>s. ps_task_id s = task_id \<and> ps_completed s = False) (pomodoro_sessions db) of
        None \<Rightarrow> Inl (HTTPException 404)
      | Some session \<Rightarrow>
          let session' = session\<lparr>ps_completed := True\<rparr>
          in Inr (session',
                  db\<lparr>pomodoro_sessions :=
                       map (\<lambda>s. if ps_id s = ps_id session then s\<lparr>ps_completed := True\<rparr> else s)
                         (pomodoro_sessions db)\<rparr>))"

text \<open>
  The loop of \<open>get_pomodoro_stats\<close> over the completed sessions:
  \<^verbatim>\<open>stats[session.task_id] = stats.get(session.task_id, 0) + 25\<close>.
\<close>

fun stats_loop :: "(string \<rightharpoonup> int) \<Rightarrow> PomodoroSession list \<Rightarrow> (string \<rightharpoonup> int)" where
  "stats_loop stats [] = stats"
| "stats_loop stats (session # sessions) =
     stats_loop
       (stats(ps_task_id session \<mapsto>
          (case stats (ps_task_id session) of None \<Rightarrow> 0 | Some v \<Rightarrow> v) + 25))
       sessions"

definition get_pomodoro_stats :: "database \<Rightarrow> (string \<rightharpoonup> int)" where
  "get_pomodoro_stats db =
     stats_loop Map.empty (filter (\<lambda>s. ps_completed s = True) (pomodoro_sessions db))"

subsection \<open>The HTTP boundary\<close>

text \<open>
  One request of the application. The body of \<open>POST /tasks\<close> and \<open>PUT /tasks/{id}\<close> is
  validated against \<open>Task\<close> before the endpoint runs; the query parameter \<open>status\<close> of
  \<open>GET /tasks\<close> is declared \<^verbatim>\<open>Optional[str] = None\<close>, with no constraint. An
  endpoint that raises leaves the database as it was. The response is the value that
  the endpoint returns, without its constant message.
\<close>

datatype request =
    GET_root
  | POST_tasks task_body
  | GET_tasks "string option"
  | GET_task string
  | PUT_task string task_body
  | DELETE_task string
  | POST_pomodoro string
  | POST_pomodoro_stop string
  | GET_pomodoro_stats

datatype response =
    Task_response TaskModel
  | Tasks_response "TaskModel list"
  | Session_response PomodoroSession
  | Message_response
  | Stats_response "string \<rightharpoonup> int"

text \<open>
  \<^verbatim>\<open>response_model=List[dict]\<close> of \<open>GET /tasks\<close> and \<^verbatim>\<open>response_model=dict\<close> of
  \<open>GET /tasks/{task_id}\<close>: the value that the endpoint returns is validated against
  the response model before it is written. A \<open>TaskModel\<close> instance is not a \<open>dict\<close>,
  and \<open>dict(v)\<close> raises \<open>TypeError\<close> for it, so its validation fails. A list is
  validated element by element; the empty list has no element that could fail.
\<close>

definition dict_validator :: "TaskModel \<Rightarrow> error + TaskModel" where
  "dict_validator v = Inl ResponseValidationError"

fun list_dict_validator :: "TaskModel list \<Rightarrow> error + TaskModel list" where
  "list_dict_validator [] = Inr []"
| "list_dict_validator (v # vs) =
     (case dict_validator v of
        Inl err \<Rightarrow> Inl err
      | Inr d \<Rightarrow>
          (case list_dict_validator vs of
             Inl err \<Rightarrow> Inl err
           | Inr ds \<Rightarrow> Inr (d # ds)))"

fun handle :: "env \<Rightarrow> database \<Rightarrow> request \<Rightarrow> (error + response) \<times> database" where
  "handle e db GET_root = (Inr Message_response, db)"
| "handle e db (POST_tasks body) =
     (case Task_validate body of
        Inl err \<Rightarrow> (Inl err, db)
      | Inr task \<Rightarrow>
          (case create_task e db task of
             Inl err \<Rightarrow> (Inl err, db)
           | Inr (new_task, db') \<Rightarrow> (Inr (Task_response new_task), db')))"
| "handle e db (GET_tasks status_filter) =
     (case list_dict_validator (get_tasks db status_filter) of
        Inl err \<Rightarrow> (Inl err, db)
      | Inr rows \<Rightarrow> (Inr (Tasks_response rows), db))"
| "handle e db (GET_task task_id) =
     (case get_task db task_id of
        Inl err \<Rightarrow> (Inl err, db)
      | Inr task \<Rightarrow>
          (case dict_validator task of
             Inl err \<Rightarrow> (Inl err, db)
           | Inr d \<Rightarrow> (Inr (Task_response d), db)))"
| "handle e db (PUT_task task_id body) =
     (case Task_validate body of
        Inl err \<Rightarrow> (Inl err, db)
      | Inr updated_task \<Rightarrow>
          (case update_task db task_id updated_task of
             Inl err \<Rightarrow> (Inl err, db)
           | Inr (task, db') \<Rightarrow> (Inr (Task_response task), db')))"
| "handle e db (DELETE_task task_id) =
     (case delete_task db task_id of
        Inl err \<Rightarrow> (Inl err, db)
      | Inr db' \<Rightarrow> (Inr Message_response, db'))"
| "handle e db (POST_pomodoro task_id) =
     (case create_pomodoro e db task_id of
        Inl err \<Rightarrow> (Inl err, db)
      | Inr (session, db') \<Rightarrow> (Inr (Session_response session), db'))"
| "handle e db (POST_pomodoro_stop task_id) =
     (case stop_pomodoro db task_id of
        Inl err \<Rightarrow> (Inl err, db)
      | Inr (session, db') \<Rightarrow> (Inr (Session_response session), db'))"
| "handle e db GET_pomodoro_stats = (Inr (Stats_response (get_pomodoro_stats db)), db)"

text \<open>A sequence of requests, each with its environment, run one after the other.\<close>

fun run_requests :: "database \<Rightarrow> (env \<times> request) list \<Rightarrow> database" where
  "run_requests db [] = db"
| "run_requests db ((e, req) # rest) = run_requests (snd (handle e db req)) rest"

subsection \<open>The invariant of the store\<close>

text \<open>
  The constraints of both tables hold, and the sessions that are not completed have
  pairwise different task ids.
\<close>

definition store_invariant :: "database \<Rightarrow> bool" where
  "store_invariant db =
     (tasks_constraints (tasks db) \<and> sessions_constraints (pomodoro_sessions db) \<and>
      distinct (map ps_task_id (filter (\<lambda>s. ps_completed s = False) (pomodoro_sessions db))))"

subsection \<open>The life of a session record\<close>

text \<open>
  What may become of a session record: it stays as it is, or its flag \<open>completed\<close>
  goes from false to true. A later session table keeps the records of an earlier one
  when it has such a record at every position of the earlier table.
\<close>

definition session_kept :: "PomodoroSession \<Rightarrow> PomodoroSession \<Rightarrow> bool" where
  "session_kept s s' = (s' = s \<or> (ps_completed s = False \<and> s' = s\<lparr>ps_completed := True\<rparr>))"

definition sessions_kept :: "PomodoroSession list \<Rightarrow> PomodoroSession list \<Rightarrow> bool" where
  "sessions_kept xs ys =
     (length xs \<le> length ys \<and> list_all2 session_kept xs (take (length xs) ys))"

subsection \<open>Example data\<close>

text \<open>
  A store with two tasks whose titles differ only in the case of one letter, two
  completed sessions of the first task and one running session of the second, and a
  second store that differs from it only in the times of the sessions.
\<close>

definition example_tasks :: "TaskModel list" where
  "example_tasks =
     [\<lparr>tm_id = ''a'', tm_title = ''Write report'', tm_description = None, tm_status = ''TODO''\<rparr>,
      \<lparr>tm_id = ''b'', tm_title = ''write report'', tm_description = Some ''draft'',
        tm_status = ''DONE''\<rparr>]"

definition example_database :: database where
  "example_database =
     \<lparr>tasks = example_tasks,
      pomodoro_sessions =
        [\<lparr>ps_id = ''s1'', ps_task_id = ''a'', ps_start_time = 0, ps_end_time = 1500000000,
           ps_completed = True\<rparr>,
         \<lparr>ps_id = ''s2'', ps_task_id = ''a'', ps_start_time = 2000000000,
           ps_end_time = 3500000000, ps_completed = True\<rparr>,
         \<lparr>ps_id = ''s3'', ps_task_id = ''b'', ps_start_time = 4000000000,
           ps_end_time = 5500000000, ps_completed = False\<rparr>]\<rparr>"

definition example_database_times :: database where
  "example_database_times =
     \<lparr>tasks = example_tasks,
      pomodoro_sessions =
        [\<lparr>ps_id = ''s1'', ps_task_id = ''a'', ps_start_time = 7, ps_end_time = 1500000007,
           ps_completed = True\<rparr>,
         \<lparr>ps_id = ''s2'', ps_task_id = ''a'', ps_start_time = 8,
           ps_end_time = 1500000008, ps_completed = True\<rparr>,
         \<lparr>ps_id = ''s3'', ps_task_id = ''b'', ps_start_time = 9,
           ps_end_time = 1500000009, ps_completed = False\<rparr>]\<rparr>"

definition example_env :: env where
  "example_env = \<lparr>uuid4 = ''u'', now = 4000000001\<rparr>"

text \<open>
  A run from the empty store: the task \<open>Write report\<close> is created and a session is
  started for it. In one longer run the task is then deleted; in the other the session
  is stopped, 1000 microseconds after its start.
\<close>

definition example_trace :: "(env \<times> request) list" where
  "example_trace =
     [(\<lparr>uuid4 = ''t1'', now = 0\<rparr>,
       POST_tasks \<lparr>body_title = Some ''Write report'', body_description = None,
         body_status = None\<rparr>),
      (\<lparr>uuid4 = ''p1'', now = 1000\<rparr>, POST_pomodoro ''t1'')]"

definition example_trace_deleted :: "(env \<times> request) list" where
  "example_trace_deleted =
     example_trace @ [(\<lparr>uuid4 = ''x'', now = 2000\<rparr>, DELETE_task ''t1'')]"

definition example_trace_stopped :: "(env \<times> request) list" where
  "example_trace_stopped =
     example_trace @ [(\<lparr>uuid4 = ''x'', now = 2000\<rparr>, POST_pomodoro_stop ''t1'')]"

text \<open>Two request bodies: the title of the first example task, and the same title in capitals.\<close>

definition example_body :: task_body where
  "example_body =
     \<lparr>body_title = Some ''Write report'', body_description = None, body_status = None\<rparr>"

definition example_body_capitals :: task_body where
  "example_body_capitals =
     \<lparr>body_title = Some ''WRITE REPORT'', body_description = None, body_status = None\<rparr>"

text \<open>
  Requests on the example store: the running session of task \<open>b\<close> is stopped, task
  \<open>a\<close> is deleted, and a new session is started for task \<open>b\<close>.
\<close>

definition example_requests :: "(env \<times> request) list" where
  "example_requests =
     [(\<lparr>uuid4 = ''x'', now = 4100000000\<rparr>, POST_pomodoro_stop ''b''),
      (\<lparr>uuid4 = ''x'', now = 4100000001\<rparr>, DELETE_task ''a''),
      (\<lparr>uuid4 = ''s4'', now = 4200000000\<rparr>, POST_pomodoro ''b'')]"

text \<open>A request body whose status is none of the three values.\<close>

definition example_body_bogus :: task_body where
  "example_body_bogus =
     \<lparr>body_title = Some ''Write report'', body_description = None,
      body_status = Some ''BOGUS''\<rparr>"

section \<open>Properties\<close>

subsection \<open>Statistics\<close>

text \<open>
  The loop adds 25 to the entry of a key once for every session of the list with that
  key, and leaves the entry of every other key as it was.
\<close>

lemma stats_loop_lookup:
  "stats_loop m xs k =
     (if filter (\<lambda>s. ps_task_id s = k) xs = [] then m k
      else Some ((case m k of None \<Rightarrow> 0 | Some v \<Rightarrow> v)
                 + 25 * int (length (filter (\<lambda>s. ps_task_id s = k) xs))))"
proof (induction xs arbitrary: m)
  case Nil
  then show ?case by simp
next
  case (Cons x xs)
  show ?case
  proof (cases "ps_task_id x = k")
    case True
    then show ?thesis by (simp add: Cons.IH)
  next
    case False
    then show ?thesis by (simp add: Cons.IH)
  qed
qed

lemma get_pomodoro_stats_lookup:
  "get_pomodoro_stats db k =
     (if filter (\<lambda>s. ps_task_id s = k \<and> ps_completed s) (pomodoro_sessions db) = [] then None
      else Some (25 * int (length
             (filter (\<lambda>s. ps_task_id s = k \<and> ps_completed s) (pomodoro_sessions db)))))"
proof -
  have "filter (\<lambda>s. ps_task_id s = k) (filter (\<lambda>s. ps_completed s = True) (pomodoro_sessions db))
        = filter (\<lambda>s. ps_task_id s = k \<and> ps_completed s) (pomodoro_sessions db)"
    by (auto intro!: filter_cong)
  then show ?thesis
    by (simp only: get_pomodoro_stats_def stats_loop_lookup) simp
qed

lemma get_pomodoro_stats_dom:
  "dom (get_pomodoro_stats db) =
     {ps_task_id s |s. s \<in> set (pomodoro_sessions db) \<and> ps_completed s}"
proof (rule set_eqI)
  fix k
  have "k \<in> dom (get_pomodoro_stats db) \<longleftrightarrow>
        filter (\<lambda>s. ps_task_id s = k \<and> ps_completed s) (pomodoro_sessions db) \<noteq> []"
    by (simp add: domIff get_pomodoro_stats_lookup)
  also have "\<dots> \<longleftrightarrow> (\<exists>s\<in>set (pomodoro_sessions db). ps_task_id s = k \<and> ps_completed s)"
    by (simp add: filter_empty_conv)
  also have "\<dots> \<longleftrightarrow>
        k \<in> {ps_task_id s |s. s \<in> set (pomodoro_sessions db) \<and> ps_completed s}"
    by blast
  finally show "k \<in> dom (get_pomodoro_stats db) \<longleftrightarrow>
        k \<in> {ps_task_id s |s. s \<in> set (pomodoro_sessions db) \<and> ps_completed s}" .
qed


lemma filter_key_flag:
  assumes "map (\<lambda>s. (ps_task_id s, ps_completed s)) xs =
           map (\<lambda>s. (ps_task_id s, ps_completed s)) ys"
  shows "map ps_task_id (filter (\<lambda>s. ps_completed s = True) xs) =
         map ps_task_id (filter (\<lambda>s. ps_completed s = True) ys)"
proof -
  have len: "length xs = length ys"
    using assms by (rule map_eq_imp_length_eq)
  from len assms show ?thesis
    by (induction xs ys rule: list_induct2) simp_all
qed

lemma stats_loop_keys:
  assumes "map ps_task_id xs = map ps_task_id ys"
  shows "stats_loop m xs = stats_loop m ys"
proof -
  have len: "length xs = length ys"
    using assms by (rule map_eq_imp_length_eq)
  from len assms show ?thesis
    by (induction xs ys arbitrary: m rule: list_induct2) simp_all
qed

lemma get_pomodoro_stats_times:
  assumes "map (\<lambda>s. (ps_task_id s, ps_completed s)) (pomodoro_sessions db) =
           map (\<lambda>s. (ps_task_id s, ps_completed s)) (pomodoro_sessions db2)"
  shows "get_pomodoro_stats db = get_pomodoro_stats db2"
  unfolding get_pomodoro_stats_def
  by (rule stats_loop_keys, rule filter_key_flag, rule assms)

subsection \<open>Read requests\<close>

text \<open>
  C4. For every store, the statistics map a task id to 25 times the number of its
  completed sessions, and have no entry for a task id without a completed session; two
  stores whose sessions agree on task id and completion have the same statistics,
  whatever the times of the sessions; the request changes no table.
\<close>

theorem get_pomodoro_stats_credit:
  "get_pomodoro_stats db task_id =
     (if filter (\<lambda>s. ps_task_id s = task_id \<and> ps_completed s) (pomodoro_sessions db) = []
      then None
      else Some (25 * int (length
             (filter (\<lambda>s. ps_task_id s = task_id \<and> ps_completed s) (pomodoro_sessions db)))))
   \<and> dom (get_pomodoro_stats db) =
       {ps_task_id s |s. s \<in> set (pomodoro_sessions db) \<and> ps_completed s}
   \<and> (map (\<lambda>s. (ps_task_id s, ps_completed s)) (pomodoro_sessions db) =
        map (\<lambda>s. (ps_task_id s, ps_completed s)) (pomodoro_sessions db2)
        \<longrightarrow> get_pomodoro_stats db = get_pomodoro_stats db2)
   \<and> handle e db GET_pomodoro_stats = (Inr (Stats_response (get_pomodoro_stats db)), db)"
proof (intro conjI impI)
  show "get_pomodoro_stats db task_id =
     (if filter (\<lambda>s. ps_task_id s = task_id \<and> ps_completed s) (pomodoro_sessions db) = []
      then None
      else Some (25 * int (length
             (filter (\<lambda>s. ps_task_id s = task_id \<and> ps_completed s) (pomodoro_sessions db)))))"
    by (rule get_pomodoro_stats_lookup)
  show "dom (get_pomodoro_stats db) =
       {ps_task_id s |s. s \<in> set (pomodoro_sessions db) \<and> ps_completed s}"
    by (rule get_pomodoro_stats_dom)
  show "get_pomodoro_stats db = get_pomodoro_stats db2"
    if "map (\<lambda>s. (ps_task_id s, ps_completed s)) (pomodoro_sessions db) =
        map (\<lambda>s. (ps_task_id s, ps_completed s)) (pomodoro_sessions db2)"
    using that by (rule get_pomodoro_stats_times)
  show "handle e db GET_pomodoro_stats = (Inr (Stats_response (get_pomodoro_stats db)), db)"
    by simp
qed

theorem get_pomodoro_stats_credit_witness:
  "get_pomodoro_stats example_database ''a'' = Some 50
   \<and> get_pomodoro_stats example_database ''b'' = None
   \<and> dom (get_pomodoro_stats example_database) = {''a''}
   \<and> get_pomodoro_stats example_database = get_pomodoro_stats example_database_times
   \<and> snd (handle example_env example_database GET_pomodoro_stats) = example_database"
proof -
  have a: "get_pomodoro_stats example_database ''a'' = Some 50"
    using get_pomodoro_stats_credit [of example_database "''a''" example_database_times example_env]
    by (simp add: example_database_def)
  have b: "get_pomodoro_stats example_database ''b'' = None"
    using get_pomodoro_stats_credit [of example_database "''b''" example_database_times example_env]
    by (simp add: example_database_def)
  have d: "dom (get_pomodoro_stats example_database) = {''a''}"
    using get_pomodoro_stats_credit [of example_database "''a''" example_database_times example_env]
    by (auto simp add: example_database_def)
  have t: "get_pomodoro_stats example_database = get_pomodoro_stats example_database_times"
    using get_pomodoro_stats_credit [of example_database "''a''" example_database_times example_env]
    by (simp add: example_database_def example_database_times_def)
  have h: "snd (handle example_env example_database GET_pomodoro_stats) = example_database"
    using get_pomodoro_stats_credit [of example_database "''a''" example_database_times example_env]
    by simp
  from a b d t h show ?thesis by blast
qed



text \<open>
  C10. Listing the tasks, fetching one task and computing the statistics leave both
  tables as they are, also when the task that is fetched does not exist and the answer
  is NotFound.
\<close>

theorem read_requests_frame:
  "snd (handle e db (GET_tasks status_filter)) = db
   \<and> snd (handle e db (GET_task task_id)) = db
   \<and> snd (handle e db GET_pomodoro_stats) = db
   \<and> ((\<forall>t\<in>set (tasks db). tm_id t \<noteq> task_id)
        \<longrightarrow> handle e db (GET_task task_id) = (Inl NotFound, db))"
proof (intro conjI impI)
  show "snd (handle e db (GET_tasks status_filter)) = db"
    by (simp split: sum.split)
  show "snd (handle e db (GET_task task_id)) = db"
    by (simp split: sum.split)
  show "snd (handle e db GET_pomodoro_stats) = db" by simp
  show "handle e db (GET_task task_id) = (Inl NotFound, db)"
    if "\<forall>t\<in>set (tasks db). tm_id t \<noteq> task_id"
  proof -
    from that have "find (\<lambda>t. tm_id t = task_id) (tasks db) = None"
      by (simp add: find_None_iff)
    then show ?thesis by (simp add: get_task_def)
  qed
qed

theorem read_requests_frame_witness:
  "snd (handle example_env example_database (GET_tasks (Some ''TODO''))) = example_database
   \<and> snd (handle example_env example_database (GET_task ''zz'')) = example_database
   \<and> snd (handle example_env example_database GET_pomodoro_stats) = example_database
   \<and> list_all (\<lambda>t. tm_id t \<noteq> ''zz'') (tasks example_database)
   \<and> handle example_env example_database (GET_task ''zz'') = (Inl NotFound, example_database)"
proof -
  have h: "\<forall>t\<in>set (tasks example_database). tm_id t \<noteq> ''zz''"
    by (simp add: example_database_def example_tasks_def)
  show ?thesis
    using h read_requests_frame [of example_env example_database "Some ''TODO''" "''zz''"]
    by (simp add: list_all_iff)
qed

subsection \<open>Every request preserves the invariant\<close>

lemma find_Some_key:
  "find (\<lambda>t. f t = k) xs = Some x \<Longrightarrow> f x = k \<and> x \<in> set xs"
  by (auto simp: find_Some_iff)

lemma find_Some_prop:
  "find P xs = Some x \<Longrightarrow> P x \<and> x \<in> set xs"
  by (auto simp: find_Some_iff)

lemma store_invariant_empty: "store_invariant empty_database"
  by (simp add: store_invariant_def empty_database_def tasks_constraints_def
      sessions_constraints_def)

lemma commit_tasks_invariant:
  assumes "store_invariant db" and "commit_tasks db rows = Inr db'"
  shows "store_invariant db'"
  using assms by (auto simp: store_invariant_def commit_tasks_def split: if_splits)

lemma create_task_invariant:
  assumes "store_invariant db" and "create_task e db task = Inr (r, db')"
  shows "store_invariant db'"
  using assms
  by (auto simp: create_task_def Let_def split: if_splits sum.splits
      dest: commit_tasks_invariant)

lemma update_task_invariant:
  assumes "store_invariant db" and "update_task db task_id body = Inr (r, db')"
  shows "store_invariant db'"
  using assms
  by (auto simp: update_task_def Let_def split: option.splits if_splits sum.splits
      dest: commit_tasks_invariant)

lemma delete_task_invariant:
  assumes "store_invariant db" and "delete_task db task_id = Inr db'"
  shows "store_invariant db'"
  using assms
  by (auto simp: delete_task_def store_invariant_def tasks_constraints_def
      distinct_map_filter split: option.splits)

lemma create_pomodoro_invariant:
  assumes "store_invariant db" and "create_pomodoro e db task_id = Inr (r, db')"
  shows "store_invariant db'"
proof -
  define session where
    "session = \<lparr>ps_id = uuid4 e, ps_task_id = task_id, ps_start_time = now e,
                 ps_end_time = now e + timedelta_minutes 25, ps_completed = False\<rparr>"
  from assms(2) have
    none: "find (\<lambda>s. ps_task_id s = task_id \<and> ps_completed s = False) (pomodoro_sessions db) = None"
    and c: "commit_sessions db (pomodoro_sessions db @ [session]) = Inr db'"
    by (auto simp: create_pomodoro_def Let_def session_def
        split: option.splits if_splits sum.splits)
  have tid: "ps_task_id session = task_id" and act: "ps_completed session = False"
    by (simp_all add: session_def)
  from c have db': "db' = db\<lparr>pomodoro_sessions := pomodoro_sessions db @ [session]\<rparr>"
    and sc: "sessions_constraints (pomodoro_sessions db @ [session])"
    by (auto simp: commit_sessions_def split: if_splits)
  from none have fresh:
    "task_id \<notin> ps_task_id ` set (filter (\<lambda>s. ps_completed s = False) (pomodoro_sessions db))"
    by (auto simp: find_None_iff)
  from assms(1) have d:
    "distinct (map ps_task_id (filter (\<lambda>s. ps_completed s = False) (pomodoro_sessions db)))"
    and tc: "tasks_constraints (tasks db)"
    by (simp_all add: store_invariant_def)
  show ?thesis
    using d tc sc fresh tid act by (simp add: store_invariant_def db')
qed

lemma stop_map_ids:
  "map ps_id (map (\<lambda>s. if ps_id s = k then s\<lparr>ps_completed := True\<rparr> else s) xs) = map ps_id xs"
  by (induction xs) simp_all

lemma stop_map_active:
  "filter (\<lambda>s. ps_completed s = False)
     (map (\<lambda>s. if ps_id s = k then s\<lparr>ps_completed := True\<rparr> else s) xs) =
   filter (\<lambda>s. ps_id s \<noteq> k) (filter (\<lambda>s. ps_completed s = False) xs)"
  by (induction xs) simp_all

lemma stop_pomodoro_invariant:
  assumes "store_invariant db" and "stop_pomodoro db task_id = Inr (r, db')"
  shows "store_invariant db'"
proof -
  from assms(2) obtain session :: PomodoroSession where
    db': "db' = db\<lparr>pomodoro_sessions :=
            map (\<lambda>s. if ps_id s = ps_id session then s\<lparr>ps_completed := True\<rparr> else s)
              (pomodoro_sessions db)\<rparr>"
    by (auto simp: stop_pomodoro_def Let_def split: option.splits)
  from assms(1) have d:
    "distinct (map ps_task_id (filter (\<lambda>s. ps_completed s = False) (pomodoro_sessions db)))"
    and tc: "tasks_constraints (tasks db)"
    and sc: "sessions_constraints (pomodoro_sessions db)"
    by (simp_all add: store_invariant_def)
  from d have "distinct (map ps_task_id (filter (\<lambda>s. ps_id s \<noteq> ps_id session)
      (filter (\<lambda>s. ps_completed s = False) (pomodoro_sessions db))))"
    by (rule distinct_map_filter)
  then have act: "distinct (map ps_task_id (filter (\<lambda>s. ps_completed s = False)
      (map (\<lambda>s. if ps_id s = ps_id session then s\<lparr>ps_completed := True\<rparr> else s)
        (pomodoro_sessions db))))"
    by (simp only: stop_map_active)
  from sc have ids: "sessions_constraints
      (map (\<lambda>s. if ps_id s = ps_id session then s\<lparr>ps_completed := True\<rparr> else s)
        (pomodoro_sessions db))"
    by (simp only: sessions_constraints_def stop_map_ids)
  have sel: "tasks db' = tasks db"
    "pomodoro_sessions db' =
       map (\<lambda>s. if ps_id s = ps_id session then s\<lparr>ps_completed := True\<rparr> else s)
        (pomodoro_sessions db)"
    by (simp_all add: db')
  show ?thesis
    unfolding store_invariant_def sel using tc ids act by blast
qed

lemma handle_invariant:
  assumes "store_invariant db"
  shows "store_invariant (snd (handle e db req))"
proof (cases req)
  case GET_root
  with assms show ?thesis by simp
next
  case (POST_tasks body)
  with assms show ?thesis
    by (auto split: sum.splits dest: create_task_invariant)
next
  case (GET_tasks f)
  with assms show ?thesis by (simp split: sum.splits)
next
  case (GET_task k)
  with assms show ?thesis by (simp split: sum.splits)
next
  case (PUT_task k body)
  with assms show ?thesis
    by (auto split: sum.splits dest: update_task_invariant)
next
  case (DELETE_task k)
  with assms show ?thesis
    by (auto split: sum.splits dest: delete_task_invariant)
next
  case (POST_pomodoro k)
  with assms show ?thesis
    by (auto split: sum.splits dest: create_pomodoro_invariant)
next
  case (POST_pomodoro_stop k)
  with assms show ?thesis
    by (auto split: sum.splits dest: stop_pomodoro_invariant)
next
  case GET_pomodoro_stats
  with assms show ?thesis by simp
qed

lemma run_requests_invariant:
  "store_invariant db \<Longrightarrow> store_invariant (run_requests db trace)"
proof (induction trace arbitrary: db)
  case Nil
  then show ?case by simp
next
  case (Cons a trace)
  obtain e req where a: "a = (e, req)" by (cases a)
  from Cons.prems have "store_invariant (snd (handle e db req))"
    by (rule handle_invariant)
  then have "store_invariant (run_requests (snd (handle e db req)) trace)"
    by (rule Cons.IH)
  then show ?case by (simp add: a)
qed

lemma reachable_invariant: "store_invariant (run_requests empty_database trace)"
  by (rule run_requests_invariant [OF store_invariant_empty])

subsection \<open>Starting a session\<close>

lemma distinct_key_count:
  "distinct (map f (filter P xs)) \<Longrightarrow> length (filter (\<lambda>s. f s = k \<and> P s) xs) \<le> 1"
proof (induction xs)
  case Nil
  then show ?case by simp
next
  case (Cons x xs)
  show ?case
  proof (cases "f x = k \<and> P x")
    case True
    with Cons.prems have "k \<notin> f ` set (filter P xs)" by auto
    then have "filter (\<lambda>s. f s = k \<and> P s) xs = []"
      by (auto simp: filter_empty_conv)
    with True show ?thesis by simp
  next
    case False
    with Cons show ?thesis by (auto split: if_splits)
  qed
qed

lemma find_task_None:
  "(find (\<lambda>t. tm_id t = task_id) ts = None) = (task_id \<notin> set (map tm_id ts))"
  by (auto simp: find_None_iff)

lemma find_active_None:
  "(find (\<lambda>s. ps_task_id s = task_id \<and> \<not> ps_completed s) ss = None) =
   (filter (\<lambda>s. ps_task_id s = task_id \<and> \<not> ps_completed s) ss = [])"
  by (auto simp: find_None_iff filter_empty_conv)

lemma create_pomodoro_not_found:
  assumes "task_id \<notin> set (map tm_id (tasks db))"
  shows "create_pomodoro e db task_id = Inl NotFound"
proof -
  from assms have "find (\<lambda>t. tm_id t = task_id) (tasks db) = None"
    by (simp add: find_task_None)
  then show ?thesis by (simp add: create_pomodoro_def)
qed

lemma create_pomodoro_conflict:
  assumes "task_id \<in> set (map tm_id (tasks db))"
    and "filter (\<lambda>s. ps_task_id s = task_id \<and> \<not> ps_completed s) (pomodoro_sessions db) \<noteq> []"
  shows "create_pomodoro e db task_id = Inl Conflict"
proof -
  from assms(1) have "find (\<lambda>t. tm_id t = task_id) (tasks db) \<noteq> None"
    by (simp add: find_task_None)
  then obtain task where t: "find (\<lambda>t. tm_id t = task_id) (tasks db) = Some task"
    by blast
  from assms(2) have a: "find (\<lambda>s. ps_task_id s = task_id \<and> \<not> ps_completed s)
      (pomodoro_sessions db) \<noteq> None"
    by (simp add: find_active_None)
  from a show ?thesis
    by (simp add: create_pomodoro_def t)
qed

lemma create_pomodoro_created:
  assumes "task_id \<in> set (map tm_id (tasks db))"
    and "filter (\<lambda>s. ps_task_id s = task_id \<and> \<not> ps_completed s) (pomodoro_sessions db) = []"
    and "sessions_constraints (pomodoro_sessions db)"
    and "uuid4 e \<notin> set (map ps_id (pomodoro_sessions db))"
  shows "create_pomodoro e db task_id =
     Inr (\<lparr>ps_id = uuid4 e, ps_task_id = task_id, ps_start_time = now e,
           ps_end_time = now e + 25 * 60 * 1000000, ps_completed = False\<rparr>,
          db\<lparr>pomodoro_sessions := pomodoro_sessions db @
            [\<lparr>ps_id = uuid4 e, ps_task_id = task_id, ps_start_time = now e,
              ps_end_time = now e + 25 * 60 * 1000000, ps_completed = False\<rparr>]\<rparr>)"
proof -
  from assms(1) have "find (\<lambda>t. tm_id t = task_id) (tasks db) \<noteq> None"
    by (simp add: find_task_None)
  then obtain task where t: "find (\<lambda>t. tm_id t = task_id) (tasks db) = Some task"
    by blast
  from assms(2) have a: "find (\<lambda>s. ps_task_id s = task_id \<and> \<not> ps_completed s)
      (pomodoro_sessions db) = None"
    by (simp add: find_active_None)
  from assms(3,4) show ?thesis
    by (simp add: create_pomodoro_def t a commit_sessions_def sessions_constraints_def
        timedelta_minutes_def Let_def)
qed

text \<open>
  C1, amended. In every state that a sequence of requests reaches from the empty store,
  a task id has at most one session that is not completed. When the task id has such a
  session, starting a session fails and changes nothing: with Conflict when a task with
  that id exists, and with NotFound when there is none, because the task is looked up
  first. When an existing task has no such session, and the generated primary key is
  new, exactly one session that is not completed is added for the task.
\<close>

theorem at_most_one_active_session:
  assumes "db = run_requests empty_database trace"
  shows "length (filter (\<lambda>s. ps_task_id s = task_id \<and> \<not> ps_completed s)
           (pomodoro_sessions db)) \<le> 1
    \<and> (filter (\<lambda>s. ps_task_id s = task_id \<and> \<not> ps_completed s) (pomodoro_sessions db) \<noteq> []
        \<longrightarrow> handle e db (POST_pomodoro task_id) =
            (Inl (if task_id \<in> set (map tm_id (tasks db)) then Conflict else NotFound), db))
    \<and> (task_id \<in> set (map tm_id (tasks db)) \<and>
        filter (\<lambda>s. ps_task_id s = task_id \<and> \<not> ps_completed s) (pomodoro_sessions db) = [] \<and>
        uuid4 e \<notin> set (map ps_id (pomodoro_sessions db))
        \<longrightarrow> (\<exists>session db'. handle e db (POST_pomodoro task_id) =
                (Inr (Session_response session), db') \<and>
              pomodoro_sessions db' = pomodoro_sessions db @ [session] \<and>
              filter (\<lambda>s. ps_task_id s = task_id \<and> \<not> ps_completed s)
                (pomodoro_sessions db') = [session]))"
proof (intro conjI impI)
  have inv: "store_invariant db"
    unfolding assms by (rule reachable_invariant)
  then have "distinct (map ps_task_id
      (filter (\<lambda>s. \<not> ps_completed s) (pomodoro_sessions db)))"
    by (simp add: store_invariant_def)
  then show "length (filter (\<lambda>s. ps_task_id s = task_id \<and> \<not> ps_completed s)
           (pomodoro_sessions db)) \<le> 1"
    by (rule distinct_key_count)
  show "handle e db (POST_pomodoro task_id) =
            (Inl (if task_id \<in> set (map tm_id (tasks db)) then Conflict else NotFound), db)"
    if act: "filter (\<lambda>s. ps_task_id s = task_id \<and> \<not> ps_completed s)
        (pomodoro_sessions db) \<noteq> []"
  proof (cases "task_id \<in> set (map tm_id (tasks db))")
    case True
    then have "create_pomodoro e db task_id = Inl Conflict"
      using act by (rule create_pomodoro_conflict)
    with True show ?thesis by simp
  next
    case False
    then have "create_pomodoro e db task_id = Inl NotFound"
      by (rule create_pomodoro_not_found)
    with False show ?thesis by simp
  qed
  show "\<exists>session db'. handle e db (POST_pomodoro task_id) =
                (Inr (Session_response session), db') \<and>
              pomodoro_sessions db' = pomodoro_sessions db @ [session] \<and>
              filter (\<lambda>s. ps_task_id s = task_id \<and> \<not> ps_completed s)
                (pomodoro_sessions db') = [session]"
    if h: "task_id \<in> set (map tm_id (tasks db)) \<and>
        filter (\<lambda>s. ps_task_id s = task_id \<and> \<not> ps_completed s) (pomodoro_sessions db) = [] \<and>
        uuid4 e \<notin> set (map ps_id (pomodoro_sessions db))"
  proof -
    from h have t: "task_id \<in> set (map tm_id (tasks db))" by blast
    from h have none: "filter (\<lambda>s. ps_task_id s = task_id \<and> \<not> ps_completed s)
        (pomodoro_sessions db) = []" by blast
    from inv have sc: "sessions_constraints (pomodoro_sessions db)"
      by (simp add: store_invariant_def)
    from h have u: "uuid4 e \<notin> set (map ps_id (pomodoro_sessions db))" by blast
    show ?thesis
      by (simp add: create_pomodoro_created [OF t none sc u] none)
  qed
qed

lemma example_trace_run:
  "run_requests empty_database example_trace =
     \<lparr>tasks = [\<lparr>tm_id = ''t1'', tm_title = ''Write report'', tm_description = None,
                 tm_status = ''TODO''\<rparr>],
      pomodoro_sessions = [\<lparr>ps_id = ''p1'', ps_task_id = ''t1'', ps_start_time = 1000,
                 ps_end_time = 1500001000, ps_completed = False\<rparr>]\<rparr>"
  by (simp add: example_trace_def empty_database_def Task_validate_def create_task_def
      commit_tasks_def tasks_constraints_def create_pomodoro_def commit_sessions_def
      sessions_constraints_def timedelta_minutes_def Let_def)

lemma example_trace_deleted_run:
  "run_requests empty_database example_trace_deleted =
     \<lparr>tasks = [],
      pomodoro_sessions = [\<lparr>ps_id = ''p1'', ps_task_id = ''t1'', ps_start_time = 1000,
                 ps_end_time = 1500001000, ps_completed = False\<rparr>]\<rparr>"
  by (simp add: example_trace_deleted_def example_trace_def empty_database_def
      Task_validate_def create_task_def commit_tasks_def tasks_constraints_def
      create_pomodoro_def commit_sessions_def sessions_constraints_def
      timedelta_minutes_def delete_task_def Let_def)

text \<open>
  C1, as the code has it. A task is created, a session is started for it and the task
  is deleted: the session that is not completed is still stored, and starting a session
  for its task id is answered with NotFound, not with Conflict.
\<close>

theorem start_after_delete_not_found:
  "pomodoro_sessions (run_requests empty_database example_trace_deleted) =
     [\<lparr>ps_id = ''p1'', ps_task_id = ''t1'', ps_start_time = 1000,
       ps_end_time = 1500001000, ps_completed = False\<rparr>]
   \<and> handle example_env (run_requests empty_database example_trace_deleted)
        (POST_pomodoro ''t1'') =
       (Inl NotFound, run_requests empty_database example_trace_deleted)
   \<and> handle example_env (run_requests empty_database example_trace_deleted)
        (POST_pomodoro ''t1'') \<noteq>
       (Inl Conflict, run_requests empty_database example_trace_deleted)"
  by (simp add: example_trace_deleted_run create_pomodoro_def)

lemma example_trace_stopped_run:
  "run_requests empty_database example_trace_stopped =
     \<lparr>tasks = [\<lparr>tm_id = ''t1'', tm_title = ''Write report'', tm_description = None,
                 tm_status = ''TODO''\<rparr>],
      pomodoro_sessions = [\<lparr>ps_id = ''p1'', ps_task_id = ''t1'', ps_start_time = 1000,
                 ps_end_time = 1500001000, ps_completed = True\<rparr>]\<rparr>"
  by (simp add: example_trace_stopped_def example_trace_def empty_database_def
      Task_validate_def create_task_def
      commit_tasks_def tasks_constraints_def create_pomodoro_def commit_sessions_def
      sessions_constraints_def timedelta_minutes_def stop_pomodoro_def Let_def)

theorem at_most_one_active_session_witness:
  "length (filter (\<lambda>s. ps_task_id s = ''t1'' \<and> \<not> ps_completed s)
     (pomodoro_sessions (run_requests empty_database example_trace))) = 1
   \<and> handle example_env (run_requests empty_database example_trace) (POST_pomodoro ''t1'') =
       (Inl Conflict, run_requests empty_database example_trace)
   \<and> (\<exists>session db'.
        handle example_env (run_requests empty_database example_trace_stopped)
          (POST_pomodoro ''t1'') = (Inr (Session_response session), db') \<and>
        length (pomodoro_sessions db') = 2 \<and>
        filter (\<lambda>s. ps_task_id s = ''t1'' \<and> \<not> ps_completed s) (pomodoro_sessions db') =
          [session])"
proof -
  have a: "length (filter (\<lambda>s. ps_task_id s = ''t1'' \<and> \<not> ps_completed s)
     (pomodoro_sessions (run_requests empty_database example_trace))) = 1"
    by (simp add: example_trace_run)
  have b: "handle example_env (run_requests empty_database example_trace) (POST_pomodoro ''t1'') =
       (Inl Conflict, run_requests empty_database example_trace)"
    using at_most_one_active_session [where trace = example_trace and task_id = "''t1''"
        and e = example_env, OF refl]
    by (simp add: example_trace_run)
  have c: "\<exists>session db'.
        handle example_env (run_requests empty_database example_trace_stopped)
          (POST_pomodoro ''t1'') = (Inr (Session_response session), db') \<and>
        length (pomodoro_sessions db') = 2 \<and>
        filter (\<lambda>s. ps_task_id s = ''t1'' \<and> \<not> ps_completed s) (pomodoro_sessions db') =
          [session]"
    using at_most_one_active_session [where trace = example_trace_stopped and task_id = "''t1''"
        and e = example_env, OF refl]
    by (auto simp add: example_trace_stopped_run example_env_def)
  from a b c show ?thesis by blast
qed

text \<open>
  C2. Starting a session for a task id that no task has is answered with NotFound.
  For an existing task it is answered with Conflict when the task has a session that is
  not completed. In both cases the store stays as it was. Otherwise, the primary key
  being new, one session is appended to the session table, with the current time as
  start, 25 minutes later as end, and not completed; the task table is not changed. A
  primary key that the table already has makes the commit fail.
\<close>

theorem create_pomodoro_cases:
  "(task_id \<notin> set (map tm_id (tasks db))
      \<longrightarrow> handle e db (POST_pomodoro task_id) = (Inl NotFound, db))
   \<and> (task_id \<in> set (map tm_id (tasks db)) \<and>
       filter (\<lambda>s. ps_task_id s = task_id \<and> \<not> ps_completed s) (pomodoro_sessions db) \<noteq> []
      \<longrightarrow> handle e db (POST_pomodoro task_id) = (Inl Conflict, db))
   \<and> (task_id \<in> set (map tm_id (tasks db)) \<and>
       filter (\<lambda>s. ps_task_id s = task_id \<and> \<not> ps_completed s) (pomodoro_sessions db) = [] \<and>
       sessions_constraints (pomodoro_sessions db) \<and>
       uuid4 e \<notin> set (map ps_id (pomodoro_sessions db))
      \<longrightarrow> handle e db (POST_pomodoro task_id) =
            (Inr (Session_response
               \<lparr>ps_id = uuid4 e, ps_task_id = task_id, ps_start_time = now e,
                 ps_end_time = now e + 25 * 60 * 1000000, ps_completed = False\<rparr>),
             db\<lparr>pomodoro_sessions := pomodoro_sessions db @
               [\<lparr>ps_id = uuid4 e, ps_task_id = task_id, ps_start_time = now e,
                 ps_end_time = now e + 25 * 60 * 1000000, ps_completed = False\<rparr>]\<rparr>)
          \<and> tasks (snd (handle e db (POST_pomodoro task_id))) = tasks db)
   \<and> (task_id \<in> set (map tm_id (tasks db)) \<and>
       filter (\<lambda>s. ps_task_id s = task_id \<and> \<not> ps_completed s) (pomodoro_sessions db) = [] \<and>
       uuid4 e \<in> set (map ps_id (pomodoro_sessions db))
      \<longrightarrow> handle e db (POST_pomodoro task_id) = (Inl IntegrityError, db))"
proof (intro conjI impI)
  show "handle e db (POST_pomodoro task_id) = (Inl NotFound, db)"
    if "task_id \<notin> set (map tm_id (tasks db))"
    by (simp add: create_pomodoro_not_found [OF that])
  show "handle e db (POST_pomodoro task_id) = (Inl Conflict, db)"
    if "task_id \<in> set (map tm_id (tasks db)) \<and>
       filter (\<lambda>s. ps_task_id s = task_id \<and> \<not> ps_completed s) (pomodoro_sessions db) \<noteq> []"
  proof -
    from that have "create_pomodoro e db task_id = Inl Conflict"
      by (intro create_pomodoro_conflict) blast+
    then show ?thesis by simp
  qed
next
  assume h: "task_id \<in> set (map tm_id (tasks db)) \<and>
       filter (\<lambda>s. ps_task_id s = task_id \<and> \<not> ps_completed s) (pomodoro_sessions db) = [] \<and>
       sessions_constraints (pomodoro_sessions db) \<and>
       uuid4 e \<notin> set (map ps_id (pomodoro_sessions db))"
  have c: "create_pomodoro e db task_id =
     Inr (\<lparr>ps_id = uuid4 e, ps_task_id = task_id, ps_start_time = now e,
           ps_end_time = now e + 25 * 60 * 1000000, ps_completed = False\<rparr>,
          db\<lparr>pomodoro_sessions := pomodoro_sessions db @
            [\<lparr>ps_id = uuid4 e, ps_task_id = task_id, ps_start_time = now e,
              ps_end_time = now e + 25 * 60 * 1000000, ps_completed = False\<rparr>]\<rparr>)"
    using h by (intro create_pomodoro_created) blast+
  show "handle e db (POST_pomodoro task_id) =
            (Inr (Session_response
               \<lparr>ps_id = uuid4 e, ps_task_id = task_id, ps_start_time = now e,
                 ps_end_time = now e + 25 * 60 * 1000000, ps_completed = False\<rparr>),
             db\<lparr>pomodoro_sessions := pomodoro_sessions db @
               [\<lparr>ps_id = uuid4 e, ps_task_id = task_id, ps_start_time = now e,
                 ps_end_time = now e + 25 * 60 * 1000000, ps_completed = False\<rparr>]\<rparr>)"
    by (simp add: c)
  show "tasks (snd (handle e db (POST_pomodoro task_id))) = tasks db"
    by (simp add: c)
next
  assume h: "task_id \<in> set (map tm_id (tasks db)) \<and>
       filter (\<lambda>s. ps_task_id s = task_id \<and> \<not> ps_completed s) (pomodoro_sessions db) = [] \<and>
       uuid4 e \<in> set (map ps_id (pomodoro_sessions db))"
  then have "find (\<lambda>t. tm_id t = task_id) (tasks db) \<noteq> None"
    by (simp add: find_task_None)
  then obtain task where t: "find (\<lambda>t. tm_id t = task_id) (tasks db) = Some task"
    by blast
  from h have a: "find (\<lambda>s. ps_task_id s = task_id \<and> \<not> ps_completed s)
      (pomodoro_sessions db) = None"
    by (simp add: find_active_None)
  from h have "create_pomodoro e db task_id = Inl IntegrityError"
    by (simp add: create_pomodoro_def t a commit_sessions_def sessions_constraints_def Let_def)
  then show "handle e db (POST_pomodoro task_id) = (Inl IntegrityError, db)"
    by simp
qed

theorem create_pomodoro_cases_witness:
  "handle example_env example_database (POST_pomodoro ''zz'') = (Inl NotFound, example_database)
   \<and> handle example_env example_database (POST_pomodoro ''b'') =
       (Inl Conflict, example_database)
   \<and> handle example_env example_database (POST_pomodoro ''a'') =
       (Inr (Session_response
          \<lparr>ps_id = ''u'', ps_task_id = ''a'', ps_start_time = 4000000001,
            ps_end_time = 5500000001, ps_completed = False\<rparr>),
        example_database\<lparr>pomodoro_sessions := pomodoro_sessions example_database @
          [\<lparr>ps_id = ''u'', ps_task_id = ''a'', ps_start_time = 4000000001,
            ps_end_time = 5500000001, ps_completed = False\<rparr>]\<rparr>)
   \<and> tasks (snd (handle example_env example_database (POST_pomodoro ''a''))) = example_tasks"
proof -
  have a: "handle example_env example_database (POST_pomodoro ''zz'') =
      (Inl NotFound, example_database)"
    using create_pomodoro_cases [where task_id = "''zz''" and db = example_database
        and e = example_env]
    by (simp add: example_database_def example_tasks_def)
  have b: "handle example_env example_database (POST_pomodoro ''b'') =
      (Inl Conflict, example_database)"
    using create_pomodoro_cases [where task_id = "''b''" and db = example_database
        and e = example_env]
    by (simp add: example_database_def example_tasks_def)
  have c: "handle example_env example_database (POST_pomodoro ''a'') =
       (Inr (Session_response
          \<lparr>ps_id = ''u'', ps_task_id = ''a'', ps_start_time = 4000000001,
            ps_end_time = 5500000001, ps_completed = False\<rparr>),
        example_database\<lparr>pomodoro_sessions := pomodoro_sessions example_database @
          [\<lparr>ps_id = ''u'', ps_task_id = ''a'', ps_start_time = 4000000001,
            ps_end_time = 5500000001, ps_completed = False\<rparr>]\<rparr>)
     \<and> tasks (snd (handle example_env example_database (POST_pomodoro ''a''))) = example_tasks"
    using create_pomodoro_cases [where task_id = "''a''" and db = example_database
        and e = example_env]
    by (simp add: example_database_def example_tasks_def example_env_def
        sessions_constraints_def)
  from a b c show ?thesis by blast
qed

subsection \<open>Stopping a session\<close>

lemma update_row_distinct:
  assumes "distinct (map f xs)" and "i < length xs"
  shows "map (\<lambda>s. if f s = f (xs ! i) then g s else s) xs = xs[i := g (xs ! i)]"
proof (rule nth_equalityI)
  show "length (map (\<lambda>s. if f s = f (xs ! i) then g s else s) xs) = length (xs[i := g (xs ! i)])"
    by simp
next
  fix j
  assume "j < length (map (\<lambda>s. if f s = f (xs ! i) then g s else s) xs)"
  then have j: "j < length xs" by simp
  have eq: "f (xs ! j) = f (xs ! i) \<longleftrightarrow> j = i"
    using nth_eq_iff_index_eq [OF assms(1), of j i] j assms(2) by simp
  show "map (\<lambda>s. if f s = f (xs ! i) then g s else s) xs ! j = xs[i := g (xs ! i)] ! j"
    using j eq by (cases "j = i") simp_all
qed

lemma stop_pomodoro_not_found:
  "(stop_pomodoro db task_id = Inl NotFound) =
   (filter (\<lambda>s. ps_task_id s = task_id \<and> \<not> ps_completed s) (pomodoro_sessions db) = [])"
proof (cases "find (\<lambda>s. ps_task_id s = task_id \<and> \<not> ps_completed s) (pomodoro_sessions db)")
  case None
  then show ?thesis
    using find_active_None [of task_id "pomodoro_sessions db"]
    by (simp add: stop_pomodoro_def)
next
  case (Some x)
  then show ?thesis
    using find_active_None [of task_id "pomodoro_sessions db"]
    by (simp add: stop_pomodoro_def Let_def)
qed

lemma stop_pomodoro_success:
  assumes "sessions_constraints (pomodoro_sessions db)"
    and "filter (\<lambda>s. ps_task_id s = task_id \<and> \<not> ps_completed s) (pomodoro_sessions db) \<noteq> []"
  shows "\<exists>i<length (pomodoro_sessions db).
           ps_task_id (pomodoro_sessions db ! i) = task_id \<and>
           \<not> ps_completed (pomodoro_sessions db ! i) \<and>
           stop_pomodoro db task_id =
             Inr ((pomodoro_sessions db ! i)\<lparr>ps_completed := True\<rparr>,
                  db\<lparr>pomodoro_sessions :=
                       (pomodoro_sessions db)[i := (pomodoro_sessions db ! i)\<lparr>ps_completed := True\<rparr>]\<rparr>)"
proof -
  from assms(2) have "find (\<lambda>s. ps_task_id s = task_id \<and> \<not> ps_completed s)
      (pomodoro_sessions db) \<noteq> None"
    by (simp add: find_active_None)
  then obtain x where x: "find (\<lambda>s. ps_task_id s = task_id \<and> \<not> ps_completed s)
      (pomodoro_sessions db) = Some x"
    by blast
  then obtain i where i: "i < length (pomodoro_sessions db)"
    and xi: "pomodoro_sessions db ! i = x"
    and p: "ps_task_id x = task_id \<and> \<not> ps_completed x"
    by (auto simp: find_Some_iff)
  from assms(1) have d: "distinct (map ps_id (pomodoro_sessions db))"
    by (simp add: sessions_constraints_def)
  have m: "map (\<lambda>s. if ps_id s = ps_id x then s\<lparr>ps_completed := True\<rparr> else s)
             (pomodoro_sessions db) =
           (pomodoro_sessions db)[i := x\<lparr>ps_completed := True\<rparr>]"
    using update_row_distinct [OF d i, of "\<lambda>s. s\<lparr>ps_completed := True\<rparr>"]
    by (simp add: xi)
  have "stop_pomodoro db task_id =
          Inr (x\<lparr>ps_completed := True\<rparr>,
               db\<lparr>pomodoro_sessions := (pomodoro_sessions db)[i := x\<lparr>ps_completed := True\<rparr>]\<rparr>)"
    by (simp add: stop_pomodoro_def x Let_def m)
  with i xi p show ?thesis by blast
qed

lemma stop_map_active_task:
  "filter (\<lambda>s. ps_task_id s = task_id \<and> \<not> ps_completed s)
     (map (\<lambda>s. if ps_id s = k then s\<lparr>ps_completed := True\<rparr> else s) xs) =
   filter (\<lambda>s. ps_id s \<noteq> k) (filter (\<lambda>s. ps_task_id s = task_id \<and> \<not> ps_completed s) xs)"
  by (induction xs) simp_all

lemma stop_pomodoro_twice:
  assumes "store_invariant db" and "stop_pomodoro db task_id = Inr (r, db')"
  shows "stop_pomodoro db' task_id = Inl NotFound"
proof -
  from assms(2) obtain x :: PomodoroSession where
    x: "find (\<lambda>s. ps_task_id s = task_id \<and> \<not> ps_completed s) (pomodoro_sessions db) = Some x"
    and db': "db' = db\<lparr>pomodoro_sessions :=
            map (\<lambda>s. if ps_id s = ps_id x then s\<lparr>ps_completed := True\<rparr> else s)
              (pomodoro_sessions db)\<rparr>"
    by (auto simp: stop_pomodoro_def Let_def split: option.splits)
  let ?act = "filter (\<lambda>s. ps_task_id s = task_id \<and> \<not> ps_completed s) (pomodoro_sessions db)"
  from x have mem: "x \<in> set ?act"
    by (auto simp: find_Some_iff)
  from assms(1) have "distinct (map ps_task_id
      (filter (\<lambda>s. \<not> ps_completed s) (pomodoro_sessions db)))"
    by (simp add: store_invariant_def)
  then have "length ?act \<le> 1" by (rule distinct_key_count)
  with mem have "?act = [x]"
    by (cases ?act) auto
  then have e: "filter (\<lambda>s. ps_id s \<noteq> ps_id x) ?act = []"
    by (simp only: filter.simps) simp
  have sel: "pomodoro_sessions db' =
      map (\<lambda>s. if ps_id s = ps_id x then s\<lparr>ps_completed := True\<rparr> else s)
        (pomodoro_sessions db)"
    by (simp add: db')
  have "filter (\<lambda>s. ps_task_id s = task_id \<and> \<not> ps_completed s) (pomodoro_sessions db') =
        filter (\<lambda>s. ps_id s \<noteq> ps_id x) ?act"
    unfolding sel by (rule stop_map_active_task)
  also have "\<dots> = []" by (rule e)
  finally show ?thesis by (simp only: stop_pomodoro_not_found)
qed

lemma handle_stop_not_found:
  "(handle e db (POST_pomodoro_stop task_id) = (Inl NotFound, db)) =
   (stop_pomodoro db task_id = Inl NotFound)"
  by (cases "stop_pomodoro db task_id")
     (auto simp: stop_pomodoro_def Let_def split: option.splits)

text \<open>
  C3. Stopping is answered with NotFound exactly when the task id has no session that is
  not completed. Otherwise the first such session, and no other record, gets
  \<open>completed = True\<close>; neither the current time nor the end time of the session is
  read, so a session is stopped at any time. In a state reached from the empty store, a
  second stop directly after a successful one is answered with NotFound.
\<close>

theorem stop_pomodoro_cases:
  assumes "db = run_requests empty_database trace"
  shows "((handle e db (POST_pomodoro_stop task_id) = (Inl NotFound, db)) =
          (filter (\<lambda>s. ps_task_id s = task_id \<and> \<not> ps_completed s) (pomodoro_sessions db) = []))
    \<and> (filter (\<lambda>s. ps_task_id s = task_id \<and> \<not> ps_completed s) (pomodoro_sessions db) \<noteq> []
        \<longrightarrow> (\<exists>i<length (pomodoro_sessions db).
              ps_task_id (pomodoro_sessions db ! i) = task_id \<and>
              \<not> ps_completed (pomodoro_sessions db ! i) \<and>
              handle e db (POST_pomodoro_stop task_id) =
                (Inr (Session_response ((pomodoro_sessions db ! i)\<lparr>ps_completed := True\<rparr>)),
                 db\<lparr>pomodoro_sessions := (pomodoro_sessions db)
                      [i := (pomodoro_sessions db ! i)\<lparr>ps_completed := True\<rparr>]\<rparr>)))
    \<and> (filter (\<lambda>s. ps_task_id s = task_id \<and> \<not> ps_completed s) (pomodoro_sessions db) \<noteq> []
        \<longrightarrow> handle e2 (snd (handle e db (POST_pomodoro_stop task_id)))
              (POST_pomodoro_stop task_id) =
            (Inl NotFound, snd (handle e db (POST_pomodoro_stop task_id))))"
proof (intro conjI impI)
  have inv: "store_invariant db"
    unfolding assms by (rule reachable_invariant)
  show "(handle e db (POST_pomodoro_stop task_id) = (Inl NotFound, db)) =
          (filter (\<lambda>s. ps_task_id s = task_id \<and> \<not> ps_completed s) (pomodoro_sessions db) = [])"
    by (simp only: handle_stop_not_found stop_pomodoro_not_found)
  assume act: "filter (\<lambda>s. ps_task_id s = task_id \<and> \<not> ps_completed s)
      (pomodoro_sessions db) \<noteq> []"
  from inv have sc: "sessions_constraints (pomodoro_sessions db)"
    by (simp add: store_invariant_def)
  from stop_pomodoro_success [OF sc act] obtain i where
    i: "i < length (pomodoro_sessions db)"
    and p: "ps_task_id (pomodoro_sessions db ! i) = task_id"
      "\<not> ps_completed (pomodoro_sessions db ! i)"
    and st: "stop_pomodoro db task_id =
             Inr ((pomodoro_sessions db ! i)\<lparr>ps_completed := True\<rparr>,
                  db\<lparr>pomodoro_sessions :=
                       (pomodoro_sessions db)[i := (pomodoro_sessions db ! i)\<lparr>ps_completed := True\<rparr>]\<rparr>)"
    by blast
  have h: "handle e db (POST_pomodoro_stop task_id) =
                (Inr (Session_response ((pomodoro_sessions db ! i)\<lparr>ps_completed := True\<rparr>)),
                 db\<lparr>pomodoro_sessions := (pomodoro_sessions db)
                      [i := (pomodoro_sessions db ! i)\<lparr>ps_completed := True\<rparr>]\<rparr>)"
    by (simp add: st)
  from i p h show "\<exists>i<length (pomodoro_sessions db).
              ps_task_id (pomodoro_sessions db ! i) = task_id \<and>
              \<not> ps_completed (pomodoro_sessions db ! i) \<and>
              handle e db (POST_pomodoro_stop task_id) =
                (Inr (Session_response ((pomodoro_sessions db ! i)\<lparr>ps_completed := True\<rparr>)),
                 db\<lparr>pomodoro_sessions := (pomodoro_sessions db)
                      [i := (pomodoro_sessions db ! i)\<lparr>ps_completed := True\<rparr>]\<rparr>)"
    by blast
  have "stop_pomodoro (snd (handle e db (POST_pomodoro_stop task_id))) task_id = Inl NotFound"
    by (rule stop_pomodoro_twice [OF inv]) (simp add: st)
  then show "handle e2 (snd (handle e db (POST_pomodoro_stop task_id)))
              (POST_pomodoro_stop task_id) =
            (Inl NotFound, snd (handle e db (POST_pomodoro_stop task_id)))"
    by (simp only: handle_stop_not_found)
qed

theorem stop_pomodoro_cases_witness:
  "now \<lparr>uuid4 = ''x'', now = 2000\<rparr> <
     ps_end_time (pomodoro_sessions (run_requests empty_database example_trace) ! 0)
   \<and> handle \<lparr>uuid4 = ''x'', now = 2000\<rparr> (run_requests empty_database example_trace)
        (POST_pomodoro_stop ''t1'') =
       (Inr (Session_response \<lparr>ps_id = ''p1'', ps_task_id = ''t1'', ps_start_time = 1000,
          ps_end_time = 1500001000, ps_completed = True\<rparr>),
        run_requests empty_database example_trace_stopped)
   \<and> handle example_env (run_requests empty_database example_trace_stopped)
        (POST_pomodoro_stop ''t1'') =
       (Inl NotFound, run_requests empty_database example_trace_stopped)
   \<and> handle example_env (run_requests empty_database example_trace)
        (POST_pomodoro_stop ''zz'') =
       (Inl NotFound, run_requests empty_database example_trace)"
proof -
  have a: "now \<lparr>uuid4 = ''x'', now = 2000\<rparr> <
     ps_end_time (pomodoro_sessions (run_requests empty_database example_trace) ! 0)"
    by (simp add: example_trace_run)
  have b: "handle \<lparr>uuid4 = ''x'', now = 2000\<rparr> (run_requests empty_database example_trace)
        (POST_pomodoro_stop ''t1'') =
       (Inr (Session_response \<lparr>ps_id = ''p1'', ps_task_id = ''t1'', ps_start_time = 1000,
          ps_end_time = 1500001000, ps_completed = True\<rparr>),
        run_requests empty_database example_trace_stopped)"
    using stop_pomodoro_cases [where trace = example_trace and task_id = "''t1''"
        and e = "\<lparr>uuid4 = ''x'', now = 2000\<rparr>" and ?e2.0 = example_env, OF refl]
    by (auto simp add: example_trace_run example_trace_stopped_run)
  have act: "filter (\<lambda>s. ps_task_id s = ''t1'' \<and> \<not> ps_completed s)
      (pomodoro_sessions (run_requests empty_database example_trace)) \<noteq> []"
    by (simp add: example_trace_run)
  have "handle example_env
          (snd (handle \<lparr>uuid4 = ''x'', now = 2000\<rparr> (run_requests empty_database example_trace)
            (POST_pomodoro_stop ''t1'')))
          (POST_pomodoro_stop ''t1'') =
        (Inl NotFound,
          snd (handle \<lparr>uuid4 = ''x'', now = 2000\<rparr> (run_requests empty_database example_trace)
            (POST_pomodoro_stop ''t1'')))"
    using stop_pomodoro_cases [where trace = example_trace and task_id = "''t1''"
        and e = "\<lparr>uuid4 = ''x'', now = 2000\<rparr>" and ?e2.0 = example_env, OF refl] act
    by blast
  then have c: "handle example_env (run_requests empty_database example_trace_stopped)
        (POST_pomodoro_stop ''t1'') =
       (Inl NotFound, run_requests empty_database example_trace_stopped)"
    by (simp only: b snd_conv)
  have d: "handle example_env (run_requests empty_database example_trace)
        (POST_pomodoro_stop ''zz'') =
       (Inl NotFound, run_requests empty_database example_trace)"
    using stop_pomodoro_cases [where trace = example_trace and task_id = "''zz''"
        and e = example_env and ?e2.0 = example_env, OF refl]
    by (simp add: example_trace_run)
  from a b c d show ?thesis by blast
qed

subsection \<open>Title uniqueness\<close>

lemma find_title_None:
  "(find (\<lambda>t. tm_title t = k) ts = None) = (k \<notin> set (map tm_title ts))"
  by (auto simp: find_None_iff)

lemma find_other_title_None:
  "(find (\<lambda>t. tm_title t = k \<and> tm_id t \<noteq> task_id) ts = None) =
   (\<not> list_ex (\<lambda>t. tm_title t = k \<and> tm_id t \<noteq> task_id) ts)"
  by (auto simp: find_None_iff list_ex_iff)

lemma create_task_conflict:
  "(create_task e db task = Inl Conflict) = (title task \<in> set (map tm_title (tasks db)))"
proof (cases "find (\<lambda>t. tm_title t = title task) (tasks db)")
  case None
  then have "create_task e db task \<noteq> Inl Conflict"
    by (simp add: create_task_def Let_def commit_tasks_def)
  with None show ?thesis
    using find_title_None [of "title task" "tasks db"] by simp
next
  case (Some x)
  then have "create_task e db task = Inl Conflict"
    by (simp add: create_task_def)
  with Some show ?thesis
    using find_title_None [of "title task" "tasks db"] by simp
qed

lemma update_task_conflict:
  assumes "task_id \<in> set (map tm_id (tasks db))"
  shows "(update_task db task_id task = Inl Conflict) =
         list_ex (\<lambda>t. tm_title t = title task \<and> tm_id t \<noteq> task_id) (tasks db)"
proof -
  from assms have "find (\<lambda>t. tm_id t = task_id) (tasks db) \<noteq> None"
    by (simp add: find_task_None)
  then obtain row where row: "find (\<lambda>t. tm_id t = task_id) (tasks db) = Some row"
    by blast
  show ?thesis
  proof (cases "find (\<lambda>t. tm_title t = title task \<and> tm_id t \<noteq> task_id) (tasks db)")
    case None
    then have "update_task db task_id task \<noteq> Inl Conflict"
      by (simp add: update_task_def row Let_def commit_tasks_def)
    with None show ?thesis
      using find_other_title_None [of "title task" task_id "tasks db"] by simp
  next
    case (Some x)
    then have "update_task db task_id task = Inl Conflict"
      by (simp add: update_task_def row)
    with Some show ?thesis
      using find_other_title_None [of "title task" task_id "tasks db"] by simp
  qed
qed

lemma handle_post_tasks_conflict:
  assumes "Task_validate body = Inr task"
  shows "(handle e db (POST_tasks body) = (Inl Conflict, db)) =
         (create_task e db task = Inl Conflict)"
  using assms by (cases "create_task e db task") (auto split: prod.splits)

lemma handle_put_task_conflict:
  assumes "Task_validate body = Inr task"
  shows "(handle e db (PUT_task task_id body) = (Inl Conflict, db)) =
         (update_task db task_id task = Inl Conflict)"
  using assms by (cases "update_task db task_id task") (auto split: prod.splits)

text \<open>
  C5. A validated creation request is answered with Conflict, the store unchanged,
  exactly when a stored task has the same title, character for character. A validated
  update of an existing task is answered with Conflict, the store unchanged, exactly
  when a stored task with another id has the new title. In every state reached from the
  empty store the titles of the tasks are pairwise different.
\<close>

theorem title_uniqueness:
  "(Task_validate body = Inr task
      \<longrightarrow> (handle e db (POST_tasks body) = (Inl Conflict, db)) =
          (title task \<in> set (map tm_title (tasks db))))
   \<and> (Task_validate body = Inr task \<and> task_id \<in> set (map tm_id (tasks db))
      \<longrightarrow> (handle e db (PUT_task task_id body) = (Inl Conflict, db)) =
          list_ex (\<lambda>t. tm_title t = title task \<and> tm_id t \<noteq> task_id) (tasks db))
   \<and> distinct (map tm_title (tasks (run_requests empty_database trace)))"
proof (intro conjI impI)
  show "(handle e db (POST_tasks body) = (Inl Conflict, db)) =
          (title task \<in> set (map tm_title (tasks db)))"
    if "Task_validate body = Inr task"
    by (simp only: handle_post_tasks_conflict [OF that] create_task_conflict)
  show "(handle e db (PUT_task task_id body) = (Inl Conflict, db)) =
          list_ex (\<lambda>t. tm_title t = title task \<and> tm_id t \<noteq> task_id) (tasks db)"
    if "Task_validate body = Inr task \<and> task_id \<in> set (map tm_id (tasks db))"
  proof -
    from that have v: "Task_validate body = Inr task"
      and m: "task_id \<in> set (map tm_id (tasks db))" by blast+
    show ?thesis
      by (simp only: handle_put_task_conflict [OF v] update_task_conflict [OF m])
  qed
  have "store_invariant (run_requests empty_database trace)"
    by (rule reachable_invariant)
  then show "distinct (map tm_title (tasks (run_requests empty_database trace)))"
    by (simp add: store_invariant_def tasks_constraints_def)
qed

theorem title_uniqueness_witness:
  "handle example_env example_database (POST_tasks example_body) =
     (Inl Conflict, example_database)
   \<and> handle example_env example_database (POST_tasks example_body_capitals) \<noteq>
     (Inl Conflict, example_database)
   \<and> handle example_env example_database (PUT_task ''b'' example_body) =
     (Inl Conflict, example_database)
   \<and> handle example_env example_database (PUT_task ''a'' example_body) \<noteq>
     (Inl Conflict, example_database)
   \<and> distinct (map tm_title (tasks (run_requests empty_database example_trace)))"
proof -
  have v: "Task_validate example_body =
      Inr \<lparr>title = ''Write report'', description = None, status = ''TODO''\<rparr>"
    by (simp add: Task_validate_def example_body_def)
  have w: "Task_validate example_body_capitals =
      Inr \<lparr>title = ''WRITE REPORT'', description = None, status = ''TODO''\<rparr>"
    by (simp add: Task_validate_def example_body_capitals_def)
  have a: "handle example_env example_database (POST_tasks example_body) =
     (Inl Conflict, example_database)"
    using v title_uniqueness [where body = example_body
        and task = "\<lparr>title = ''Write report'', description = None, status = ''TODO''\<rparr>"
        and db = example_database and e = example_env and task_id = "''b''"
        and trace = example_trace]
    by (simp add: example_database_def example_tasks_def)
  have b: "handle example_env example_database (POST_tasks example_body_capitals) \<noteq>
     (Inl Conflict, example_database)"
    using w title_uniqueness [where body = example_body_capitals
        and task = "\<lparr>title = ''WRITE REPORT'', description = None, status = ''TODO''\<rparr>"
        and db = example_database and e = example_env and task_id = "''b''"
        and trace = example_trace]
    by (simp add: example_database_def example_tasks_def)
  have c: "handle example_env example_database (PUT_task ''b'' example_body) =
     (Inl Conflict, example_database)"
    using v title_uniqueness [where body = example_body
        and task = "\<lparr>title = ''Write report'', description = None, status = ''TODO''\<rparr>"
        and db = example_database and e = example_env and task_id = "''b''"
        and trace = example_trace]
    by (simp add: example_database_def example_tasks_def)
  have d: "handle example_env example_database (PUT_task ''a'' example_body) \<noteq>
     (Inl Conflict, example_database)"
    using v title_uniqueness [where body = example_body
        and task = "\<lparr>title = ''Write report'', description = None, status = ''TODO''\<rparr>"
        and db = example_database and e = example_env and task_id = "''a''"
        and trace = example_trace]
    by (simp add: example_database_def example_tasks_def)
  have t: "distinct (map tm_title (tasks (run_requests empty_database example_trace)))"
    using title_uniqueness [where body = example_body
        and task = "\<lparr>title = ''Write report'', description = None, status = ''TODO''\<rparr>"
        and db = example_database and e = example_env and task_id = "''a''"
        and trace = example_trace]
    by blast
  from a b c d t show ?thesis by blast
qed

subsection \<open>Deleting a task\<close>

lemma delete_task_found:
  assumes "task_id \<in> set (map tm_id (tasks db))"
  shows "delete_task db task_id =
         Inr (db\<lparr>tasks := filter (\<lambda>t. tm_id t \<noteq> task_id) (tasks db)\<rparr>)"
proof -
  from assms have "find (\<lambda>t. tm_id t = task_id) (tasks db) \<noteq> None"
    by (simp add: find_task_None)
  then obtain row where row: "find (\<lambda>t. tm_id t = task_id) (tasks db) = Some row"
    by blast
  then have "tm_id row = task_id"
    by (auto simp: find_Some_iff)
  with row show ?thesis by (simp add: delete_task_def)
qed

lemma delete_task_sessions:
  "pomodoro_sessions (snd (handle e db (DELETE_task task_id))) = pomodoro_sessions db"
  by (auto simp: delete_task_def split: option.splits)

lemma filter_key_length:
  assumes "distinct (map f xs)" and "k \<in> set (map f xs)"
  shows "Suc (length (filter (\<lambda>t. f t \<noteq> k) xs)) = length xs"
  using assms
proof (induction xs)
  case Nil
  then show ?case by simp
next
  case (Cons x xs)
  show ?case
  proof (cases "f x = k")
    case True
    with Cons.prems have "k \<notin> f ` set xs" by simp
    then have "\<forall>t\<in>set xs. f t \<noteq> k" by blast
    then have "filter (\<lambda>t. f t \<noteq> k) xs = xs" by simp
    with True show ?thesis by simp
  next
    case False
    with Cons show ?thesis by simp
  qed
qed

text \<open>
  C6. Deleting an existing task removes the task records with that id, one record when
  the primary keys are distinct, and keeps every other task in its place. The session
  table is the same list as before, with the sessions of the deleted task in it, and
  the statistics are the same as before.
\<close>

theorem delete_task_keeps_sessions:
  "(task_id \<in> set (map tm_id (tasks db))
      \<longrightarrow> handle e db (DELETE_task task_id) =
          (Inr Message_response, db\<lparr>tasks := filter (\<lambda>t. tm_id t \<noteq> task_id) (tasks db)\<rparr>))
   \<and> (task_id \<in> set (map tm_id (tasks db)) \<and> distinct (map tm_id (tasks db))
      \<longrightarrow> Suc (length (tasks (snd (handle e db (DELETE_task task_id))))) = length (tasks db))
   \<and> pomodoro_sessions (snd (handle e db (DELETE_task task_id))) = pomodoro_sessions db
   \<and> get_pomodoro_stats (snd (handle e db (DELETE_task task_id))) = get_pomodoro_stats db"
proof (intro conjI impI)
  show "handle e db (DELETE_task task_id) =
          (Inr Message_response, db\<lparr>tasks := filter (\<lambda>t. tm_id t \<noteq> task_id) (tasks db)\<rparr>)"
    if "task_id \<in> set (map tm_id (tasks db))"
    by (simp add: delete_task_found [OF that])
  show "Suc (length (tasks (snd (handle e db (DELETE_task task_id))))) = length (tasks db)"
    if "task_id \<in> set (map tm_id (tasks db)) \<and> distinct (map tm_id (tasks db))"
  proof -
    from that have m: "task_id \<in> set (map tm_id (tasks db))"
      and d: "distinct (map tm_id (tasks db))" by blast+
    show ?thesis
      using filter_key_length [OF d m] by (simp add: delete_task_found [OF m])
  qed
  show "pomodoro_sessions (snd (handle e db (DELETE_task task_id))) = pomodoro_sessions db"
    by (rule delete_task_sessions)
  then show "get_pomodoro_stats (snd (handle e db (DELETE_task task_id))) = get_pomodoro_stats db"
    by (simp only: get_pomodoro_stats_def)
qed

theorem delete_task_keeps_sessions_witness:
  "handle example_env example_database (DELETE_task ''a'') =
     (Inr Message_response,
      \<lparr>tasks = [example_tasks ! 1], pomodoro_sessions = pomodoro_sessions example_database\<rparr>)
   \<and> map ps_task_id (pomodoro_sessions (snd (handle example_env example_database
        (DELETE_task ''a'')))) = [''a'', ''a'', ''b'']
   \<and> get_pomodoro_stats (snd (handle example_env example_database (DELETE_task ''a''))) ''a'' =
     Some 50"
proof -
  have a: "handle example_env example_database (DELETE_task ''a'') =
     (Inr Message_response,
      \<lparr>tasks = [example_tasks ! 1], pomodoro_sessions = pomodoro_sessions example_database\<rparr>)"
    using delete_task_keeps_sessions [where task_id = "''a''" and db = example_database
        and e = example_env]
    by (simp add: example_database_def example_tasks_def)
  have b: "map ps_task_id (pomodoro_sessions (snd (handle example_env example_database
        (DELETE_task ''a'')))) = [''a'', ''a'', ''b'']"
    using delete_task_keeps_sessions [where task_id = "''a''" and db = example_database
        and e = example_env]
    by (simp add: example_database_def example_tasks_def)
  have c: "get_pomodoro_stats (snd (handle example_env example_database (DELETE_task ''a''))) ''a'' =
     Some 50"
    using delete_task_keeps_sessions [where task_id = "''a''" and db = example_database
        and e = example_env]
    by (simp add: get_pomodoro_stats_lookup example_database_def example_tasks_def)
  from a b c show ?thesis by blast
qed

subsection \<open>Session records are kept\<close>

lemma sessions_kept_nth:
  "sessions_kept xs ys =
     (length xs \<le> length ys \<and> (\<forall>i<length xs. session_kept (xs ! i) (ys ! i)))"
  by (auto simp: sessions_kept_def list_all2_conv_all_nth)

lemma session_kept_refl: "session_kept s s"
  by (simp add: session_kept_def)

lemma session_kept_trans:
  "session_kept s t \<Longrightarrow> session_kept t u \<Longrightarrow> session_kept s u"
  by (auto simp: session_kept_def)

lemma sessions_kept_refl: "sessions_kept xs xs"
  by (simp add: sessions_kept_nth session_kept_refl)

lemma sessions_kept_trans:
  assumes "sessions_kept xs ys" and "sessions_kept ys zs"
  shows "sessions_kept xs zs"
proof -
  from assms have len: "length xs \<le> length ys" "length ys \<le> length zs"
    by (simp_all add: sessions_kept_nth)
  have "session_kept (xs ! i) (zs ! i)" if "i < length xs" for i
  proof -
    from that len have "i < length ys" by simp
    with assms that have "session_kept (xs ! i) (ys ! i)" "session_kept (ys ! i) (zs ! i)"
      by (simp_all add: sessions_kept_nth)
    then show ?thesis by (rule session_kept_trans)
  qed
  with len show ?thesis by (simp add: sessions_kept_nth)
qed

lemma sessions_kept_append: "sessions_kept xs (xs @ [s])"
  by (simp add: sessions_kept_nth nth_append session_kept_refl)

lemma sessions_kept_stop:
  "sessions_kept xs (map (\<lambda>s. if ps_id s = k then s\<lparr>ps_completed := True\<rparr> else s) xs)"
proof -
  have "session_kept s (if ps_id s = k then s\<lparr>ps_completed := True\<rparr> else s)"
    for s :: PomodoroSession
    by (cases "ps_completed s") (simp_all add: session_kept_def)
  then show ?thesis by (simp add: sessions_kept_nth)
qed

lemma create_pomodoro_kept:
  assumes "create_pomodoro e db task_id = Inr (r, db')"
  shows "sessions_kept (pomodoro_sessions db) (pomodoro_sessions db')"
proof -
  from assms have "pomodoro_sessions db' = pomodoro_sessions db @ [r]"
    by (auto simp: create_pomodoro_def commit_sessions_def Let_def
        split: option.splits if_splits)
  then show ?thesis by (simp add: sessions_kept_append)
qed

lemma stop_pomodoro_kept:
  assumes "stop_pomodoro db task_id = Inr (r, db')"
  shows "sessions_kept (pomodoro_sessions db) (pomodoro_sessions db')"
proof -
  from assms obtain x :: PomodoroSession where
    db': "db' = db\<lparr>pomodoro_sessions :=
            map (\<lambda>s. if ps_id s = ps_id x then s\<lparr>ps_completed := True\<rparr> else s)
              (pomodoro_sessions db)\<rparr>"
    by (auto simp: stop_pomodoro_def Let_def split: option.splits)
  have "pomodoro_sessions db' =
      map (\<lambda>s. if ps_id s = ps_id x then s\<lparr>ps_completed := True\<rparr> else s)
        (pomodoro_sessions db)"
    by (simp add: db')
  then show ?thesis by (simp only: sessions_kept_stop)
qed

lemma create_task_sessions:
  assumes "create_task e db task = Inr (r, db')"
  shows "pomodoro_sessions db' = pomodoro_sessions db"
  using assms
  by (auto simp: create_task_def commit_tasks_def Let_def split: if_splits)

lemma update_task_sessions:
  assumes "update_task db task_id task = Inr (r, db')"
  shows "pomodoro_sessions db' = pomodoro_sessions db"
  using assms
  by (auto simp: update_task_def commit_tasks_def Let_def split: option.splits if_splits)

lemma handle_kept:
  "sessions_kept (pomodoro_sessions db) (pomodoro_sessions (snd (handle e db req)))"
proof (cases req)
  case GET_root
  then show ?thesis by (simp add: sessions_kept_refl)
next
  case (POST_tasks body)
  then show ?thesis
    by (auto simp: sessions_kept_refl split: sum.splits dest: create_task_sessions)
next
  case (GET_tasks f)
  then show ?thesis by (simp add: sessions_kept_refl split: sum.splits)
next
  case (GET_task k)
  then show ?thesis by (simp add: sessions_kept_refl split: sum.splits)
next
  case (PUT_task k body)
  then show ?thesis
    by (auto simp: sessions_kept_refl split: sum.splits dest: update_task_sessions)
next
  case (DELETE_task k)
  then show ?thesis
    by (simp only: delete_task_sessions sessions_kept_refl)
next
  case (POST_pomodoro k)
  then show ?thesis
    by (auto simp: sessions_kept_refl split: sum.splits dest: create_pomodoro_kept)
next
  case (POST_pomodoro_stop k)
  then show ?thesis
    by (auto simp: sessions_kept_refl split: sum.splits dest: stop_pomodoro_kept)
next
  case GET_pomodoro_stats
  then show ?thesis by (simp add: sessions_kept_refl)
qed

lemma run_requests_kept:
  "sessions_kept (pomodoro_sessions db) (pomodoro_sessions (run_requests db trace))"
proof (induction trace arbitrary: db)
  case Nil
  then show ?case by (simp add: sessions_kept_refl)
next
  case (Cons a trace)
  obtain e req where a: "a = (e, req)" by (cases a)
  have "sessions_kept (pomodoro_sessions db) (pomodoro_sessions (snd (handle e db req)))"
    by (rule handle_kept)
  moreover have "sessions_kept (pomodoro_sessions (snd (handle e db req)))
      (pomodoro_sessions (run_requests (snd (handle e db req)) trace))"
    by (rule Cons.IH)
  ultimately show ?case
    unfolding a run_requests.simps by (rule sessions_kept_trans)
qed

text \<open>
  C7. Whatever requests are run from whatever store, every session record of the store
  is still at its position in the session table afterwards, either unchanged or with
  \<open>completed\<close> changed from false to true. So no session is deleted, and a session
  that is completed stays exactly as it is.
\<close>

theorem completed_is_terminal:
  "length (pomodoro_sessions db) \<le> length (pomodoro_sessions (run_requests db trace))
   \<and> (\<forall>i<length (pomodoro_sessions db).
        pomodoro_sessions (run_requests db trace) ! i = pomodoro_sessions db ! i \<or>
        (ps_completed (pomodoro_sessions db ! i) = False \<and>
         pomodoro_sessions (run_requests db trace) ! i =
           (pomodoro_sessions db ! i)\<lparr>ps_completed := True\<rparr>))
   \<and> (\<forall>i<length (pomodoro_sessions db).
        ps_completed (pomodoro_sessions db ! i) \<longrightarrow>
        pomodoro_sessions (run_requests db trace) ! i = pomodoro_sessions db ! i)"
proof -
  have k: "sessions_kept (pomodoro_sessions db) (pomodoro_sessions (run_requests db trace))"
    by (rule run_requests_kept)
  then have len: "length (pomodoro_sessions db) \<le> length (pomodoro_sessions (run_requests db trace))"
    by (simp add: sessions_kept_nth)
  from k have nth: "session_kept (pomodoro_sessions db ! i)
      (pomodoro_sessions (run_requests db trace) ! i)"
    if "i < length (pomodoro_sessions db)" for i
    using that by (simp add: sessions_kept_nth)
  from len nth show ?thesis
    by (auto simp: session_kept_def)
qed

lemma example_requests_run:
  "run_requests example_database example_requests =
     \<lparr>tasks = [example_tasks ! 1],
      pomodoro_sessions =
        [\<lparr>ps_id = ''s1'', ps_task_id = ''a'', ps_start_time = 0, ps_end_time = 1500000000,
           ps_completed = True\<rparr>,
         \<lparr>ps_id = ''s2'', ps_task_id = ''a'', ps_start_time = 2000000000,
           ps_end_time = 3500000000, ps_completed = True\<rparr>,
         \<lparr>ps_id = ''s3'', ps_task_id = ''b'', ps_start_time = 4000000000,
           ps_end_time = 5500000000, ps_completed = True\<rparr>,
         \<lparr>ps_id = ''s4'', ps_task_id = ''b'', ps_start_time = 4200000000,
           ps_end_time = 5700000000, ps_completed = False\<rparr>]\<rparr>"
  by (simp add: example_requests_def example_database_def example_tasks_def
      stop_pomodoro_def delete_task_def create_pomodoro_def commit_sessions_def
      sessions_constraints_def timedelta_minutes_def Let_def)

theorem completed_is_terminal_witness:
  "length (pomodoro_sessions (run_requests example_database example_requests)) = 4
   \<and> pomodoro_sessions (run_requests example_database example_requests) ! 0 =
       pomodoro_sessions example_database ! 0
   \<and> pomodoro_sessions (run_requests example_database example_requests) ! 2 =
       (pomodoro_sessions example_database ! 2)\<lparr>ps_completed := True\<rparr>
   \<and> tasks (run_requests example_database example_requests) = [example_tasks ! 1]"
proof -
  note t = completed_is_terminal [where db = example_database and trace = example_requests]
  from t have "0 < length (pomodoro_sessions example_database) \<longrightarrow>
      ps_completed (pomodoro_sessions example_database ! 0) \<longrightarrow>
      pomodoro_sessions (run_requests example_database example_requests) ! 0 =
        pomodoro_sessions example_database ! 0"
    by blast
  then have a: "pomodoro_sessions (run_requests example_database example_requests) ! 0 =
       pomodoro_sessions example_database ! 0"
    by (simp add: example_database_def)
  have b: "length (pomodoro_sessions (run_requests example_database example_requests)) = 4"
    by (simp add: example_requests_run)
  have c: "pomodoro_sessions (run_requests example_database example_requests) ! 2 =
       (pomodoro_sessions example_database ! 2)\<lparr>ps_completed := True\<rparr>"
    by (simp only: example_requests_run) (simp add: example_database_def)
  have d: "tasks (run_requests example_database example_requests) = [example_tasks ! 1]"
    by (simp add: example_requests_run)
  from a b c d show ?thesis by blast
qed

subsection \<open>Validation of the status\<close>

lemma re_dollar_cases:
  assumes "take n s = alt" and "re_dollar (drop n s)"
  shows "s = alt \<or> s = alt @ [CHR 0x0A]"
proof -
  have "s = take n s @ drop n s" by simp
  with assms show ?thesis
    by (auto simp: re_dollar_def)
qed

lemma status_regex_match_cases:
  assumes "status_regex_match s"
  shows "s \<in> set status_values \<or> s \<in> set (map (\<lambda>v. v @ [CHR 0x0A]) status_values)"
proof -
  from assms obtain alt where alt: "alt \<in> set status_values"
    and m: "take (length alt) s = alt" "re_dollar (drop (length alt) s)"
    by (auto simp: status_regex_match_def list_ex_iff)
  from m have "s = alt \<or> s = alt @ [CHR 0x0A]" by (rule re_dollar_cases)
  with alt show ?thesis by auto
qed

lemma status_values_match:
  assumes "s \<in> set status_values"
  shows "status_regex_match s"
proof -
  from assms have "take (length s) s = s \<and> re_dollar (drop (length s) s)"
    by (simp add: re_dollar_def)
  with assms show ?thesis
    unfolding status_regex_match_def list_ex_iff by blast
qed

lemma status_regex_line_feed:
  "status_regex_match (''TODO'' @ [CHR 0x0A])"
  by (simp add: status_regex_match_def status_values_def re_dollar_def)

lemma Task_validate_status_rejected:
  assumes "body_status body = Some s" and "\<not> status_regex_match s"
  shows "Task_validate body = Inl RequestValidationError"
  using assms by (simp add: Task_validate_def split: option.splits)

text \<open>
  C8, as the code has it. The status filter of the task listing is not validated: the
  listing with the filter \<open>BOGUS\<close>, which is none of the three values, is not
  rejected; the query runs and the request is answered with the empty list.
\<close>

theorem status_filter_not_validated:
  "''BOGUS'' \<notin> set status_values
   \<and> handle example_env example_database (GET_tasks (Some ''BOGUS'')) =
       (Inr (Tasks_response []), example_database)"
  by (simp add: status_values_def get_tasks_def example_database_def example_tasks_def)

text \<open>
  C8, amended. The status of a task body is accepted when it is one of \<open>TODO\<close>,
  \<open>IN_PROGRESS\<close> and \<open>DONE\<close>. A creation or update request whose body has a
  status that is neither one of the three nor one of the three followed by a line feed
  is answered with a validation error, the endpoint not run and the store unchanged. The
  status filter of the task listing is outside this rule: no value of the filter is
  answered with a validation error of the request.
\<close>

theorem status_validation:
  "(s \<in> set status_values \<longrightarrow> status_regex_match s)
   \<and> (body_title body = Some t \<and> 3 \<le> length t \<and> length t \<le> 100 \<and>
       body_description body = None \<and> body_status body = Some s \<and> s \<in> set status_values
      \<longrightarrow> Task_validate body = Inr \<lparr>title = t, description = None, status = s\<rparr>)
   \<and> (body_status body = Some s \<and> s \<notin> set status_values \<and>
       s \<notin> set (map (\<lambda>v. v @ [CHR 0x0A]) status_values)
      \<longrightarrow> handle e db (POST_tasks body) = (Inl RequestValidationError, db) \<and>
          handle e db (PUT_task task_id body) = (Inl RequestValidationError, db))
   \<and> fst (handle e db (GET_tasks (Some f))) \<noteq> Inl RequestValidationError"
proof (intro conjI impI)
  show "status_regex_match s" if "s \<in> set status_values"
    using that by (rule status_values_match)
  show "Task_validate body = Inr \<lparr>title = t, description = None, status = s\<rparr>"
    if h: "body_title body = Some t \<and> 3 \<le> length t \<and> length t \<le> 100 \<and>
       body_description body = None \<and> body_status body = Some s \<and> s \<in> set status_values"
  proof -
    from h have "status_regex_match s" by (intro status_values_match) blast
    with h show ?thesis by (simp add: Task_validate_def)
  qed
  show "fst (handle e db (GET_tasks (Some f))) \<noteq> Inl RequestValidationError"
    by (cases "get_tasks db (Some f)") (simp_all add: dict_validator_def)
next
  assume h: "body_status body = Some s \<and> s \<notin> set status_values \<and>
       s \<notin> set (map (\<lambda>v. v @ [CHR 0x0A]) status_values)"
  then have "\<not> status_regex_match s"
    using status_regex_match_cases [of s] by blast
  with h have v: "Task_validate body = Inl RequestValidationError"
    by (intro Task_validate_status_rejected) blast+
  show "handle e db (POST_tasks body) = (Inl RequestValidationError, db)"
    by (simp add: v)
  show "handle e db (PUT_task task_id body) = (Inl RequestValidationError, db)"
    by (simp add: v)
qed

theorem status_validation_witness:
  "status_regex_match ''IN_PROGRESS''
   \<and> Task_validate (example_body\<lparr>body_status := Some ''DONE''\<rparr>) =
       Inr \<lparr>title = ''Write report'', description = None, status = ''DONE''\<rparr>
   \<and> handle example_env example_database (POST_tasks example_body_bogus) =
       (Inl RequestValidationError, example_database)
   \<and> handle example_env example_database (PUT_task ''a'' example_body_bogus) =
       (Inl RequestValidationError, example_database)
   \<and> fst (handle example_env example_database (GET_tasks (Some ''BOGUS''))) \<noteq>
       Inl RequestValidationError"
proof -
  have a: "status_regex_match ''IN_PROGRESS''"
    using status_validation [where s = "''IN_PROGRESS''" and body = example_body_bogus
        and e = example_env and db = example_database]
    by (simp add: status_values_def)
  have b: "Task_validate (example_body\<lparr>body_status := Some ''DONE''\<rparr>) =
       Inr \<lparr>title = ''Write report'', description = None, status = ''DONE''\<rparr>"
    using status_validation [where s = "''DONE''" and t = "''Write report''"
        and body = "example_body\<lparr>body_status := Some ''DONE''\<rparr>"
        and e = example_env and db = example_database]
    by (simp add: status_values_def example_body_def)
  have c: "handle example_env example_database (POST_tasks example_body_bogus) =
       (Inl RequestValidationError, example_database)
     \<and> handle example_env example_database (PUT_task ''a'' example_body_bogus) =
       (Inl RequestValidationError, example_database)"
    using status_validation [where s = "''BOGUS''" and body = example_body_bogus
        and e = example_env and db = example_database and task_id = "''a''"]
    by (simp add: status_values_def example_body_bogus_def)
  have d: "fst (handle example_env example_database (GET_tasks (Some ''BOGUS''))) \<noteq>
       Inl RequestValidationError"
    using status_validation [where f = "''BOGUS''" and e = example_env
        and db = example_database]
    by blast
  from a b c d show ?thesis by blast
qed

end
